theory Spec2Isabelle
  imports Main
begin

section \<open>The Helm installer of \<open>up\<close>: data model\<close>

text \<open>
  This theory embeds the Helm based UXP installer (package \<open>helm\<close>): the functions
  \<open>NewInstaller\<close>, \<open>GetCurrentVersion\<close>, \<open>Install\<close>, \<open>Upgrade\<close>, \<open>Uninstall\<close>,
  \<open>pullAndLoad\<close>, \<open>pullChart\<close> and \<open>equivalentVersions\<close>.

  The installer talks to six Helm clients, a chart loader and a filesystem through Go
  interfaces. Each of them is a field of the record \<open>env\<close>: a function that reads and
  updates an abstract world \<open>'w\<close>. Every call to one of them is also appended to a log
  of events, so that statements such as "the puller is not invoked" can be expressed.
  The logger is left out: its calls return nothing and change nothing.
\<close>

subsection \<open>Constants\<close>

definition defaultCacheDir :: string where
  "defaultCacheDir = ''.cache/up/charts''"

definition defaultNamespace :: string where
  "defaultNamespace = ''upbound-system''"

definition defaultRepoURL :: string where
  "defaultRepoURL = ''https://charts.upbound.io/stable''"

definition defaultUnstableRepoURL :: string where
  "defaultUnstableRepoURL = ''https://charts.upbound.io/main''"

definition defaultChartName :: string where
  "defaultChartName = ''universal-crossplane''"

definition crossplaneChartName :: string where
  "crossplaneChartName = ''crossplane''"

definition allVersions :: string where
  "allVersions = ''>0.0.0-0''"

text \<open>The two format strings with one \<open>%s\<close> are functions of the argument.\<close>

definition errGetInstalledReleaseFmt :: "string \<Rightarrow> string" where
  "errGetInstalledReleaseFmt ns =
     ''could not identify installed release for crossplane or universal-crossplane in namespace '' @ ns"

definition errVerifyInstalledVersion :: string where
  "errVerifyInstalledVersion = ''could not identify current version''"

definition errVerifyChartNotInstalled :: string where
  "errVerifyChartNotInstalled = ''could not verify that chart is not already installed''"

definition errChartAlreadyInstalledFmt :: "string \<Rightarrow> string" where
  "errChartAlreadyInstalledFmt v = ''chart already installed with version '' @ v"

definition errPullChart :: string where
  "errPullChart = ''could not pull chart''"

definition errGetLatestPulled :: string where
  "errGetLatestPulled = ''could not identify chart pulled as latest''"

definition errCorruptTempDirFmt :: "string \<Rightarrow> string" where
  "errCorruptTempDirFmt d = ''corrupt chart tmp directory, consider removing cache ('' @ d @ '')''"

definition errMoveLatest :: string where
  "errMoveLatest = ''could not move latest pulled chart to cache''"

definition errUpgradeCrossplaneVersion :: string where
  "errUpgradeCrossplaneVersion =
     ''cannot upgrade crossplane to universal-crossplane with version mismatch''"

definition errFailedUpgradeFailedRollback :: string where
  "errFailedUpgradeFailedRollback = ''failed upgrade resulted in a failed rollback''"

definition errFailedUpgradeRollback :: string where
  "errFailedUpgradeRollback = ''failed upgrade was rolled back''"

subsection \<open>Errors\<close>

text \<open>
  A Go \<open>error\<close> value. \<open>ErrReleaseNotFound\<close> is the sentinel \<open>driver.ErrReleaseNotFound\<close>;
  \<open>ErrorString m\<close> is an error made by \<open>errors.New\<close> or \<open>errors.Errorf\<close>, or any other
  error of a collaborator; \<open>Wrap e m\<close> is \<open>errors.Wrap(e, m)\<close>, with cause \<open>e\<close>.
  \<open>Panic m\<close> is a run-time panic. A nil error is \<open>None\<close> of \<open>err option\<close>.
\<close>

datatype err =
    ErrReleaseNotFound
  | ErrorString string
  | Wrap err string
  | Panic string

text \<open>\<open>errors.Is\<close>: the target is the error itself or is reached by unwrapping it.\<close>

fun errors_Is :: "err \<Rightarrow> err \<Rightarrow> bool" where
  "errors_Is (Wrap e m) target = (Wrap e m = target \<or> errors_Is e target)"
| "errors_Is e target = (e = target)"

text \<open>The chain of errors from an error down to its root cause.\<close>

fun cause_chain :: "err \<Rightarrow> err list" where
  "cause_chain (Wrap e m) = Wrap e m # cause_chain e"
| "cause_chain e = [e]"

subsection \<open>Releases and charts\<close>

text \<open>Pointers that the code tests against nil are options.\<close>

record metadata =
  Name :: string
  Version :: string

record chart =
  Metadata :: "metadata option"

record release =
  Chart :: "chart option"

subsection \<open>Strings and paths\<close>

text \<open>\<open>strings.TrimPrefix\<close>.\<close>

definition strings_TrimPrefix :: "string \<Rightarrow> string \<Rightarrow> string" where
  "strings_TrimPrefix s p = (if take (length p) s = p then drop (length p) s else s)"

text \<open>
  \<open>filepath.Clean\<close> and \<open>filepath.Join\<close> of the Go standard library, for the separator
  \<open>/\<close>: empty and \<open>.\<close> elements are dropped, \<open>..\<close> removes the element before it, the
  empty result is \<open>.\<close>; \<open>Join\<close> ignores empty arguments and cleans the result.
\<close>

fun split_on :: "char \<Rightarrow> string \<Rightarrow> string list" where
  "split_on d [] = [[]]"
| "split_on d (c # cs) =
     (if c = d then [] # split_on d cs
      else (case split_on d cs of [] \<Rightarrow> [[c]] | x # xs \<Rightarrow> (c # x) # xs))"

fun join_slash :: "string list \<Rightarrow> string" where
  "join_slash [] = []"
| "join_slash [x] = x"
| "join_slash (x # y # ys) = x @ ''/'' @ join_slash (y # ys)"

fun clean_elems :: "bool \<Rightarrow> string list \<Rightarrow> string list \<Rightarrow> string list" where
  "clean_elems rooted out [] = rev out"
| "clean_elems rooted out (e # es) =
     (if e = [] \<or> e = ''.'' then clean_elems rooted out es
      else if e = ''..'' then
        (case out of
           [] \<Rightarrow> if rooted then clean_elems rooted [] es else clean_elems rooted [''..''] es
         | x # xs \<Rightarrow>
             if x = ''..'' then clean_elems rooted (''..'' # out) es
             else clean_elems rooted xs es)
      else clean_elems rooted (e # out) es)"

definition filepath_Clean :: "string \<Rightarrow> string" where
  "filepath_Clean p =
     (if p = [] then ''.''
      else
        (let rooted = (hd p = CHR ''/'');
             body = join_slash (clean_elems rooted [] (split_on (CHR ''/'') p))
         in if rooted then CHR ''/'' # body
            else if body = [] then ''.'' else body))"

definition filepath_Join :: "string \<Rightarrow> string \<Rightarrow> string" where
  "filepath_Join a b =
     (if a = [] \<and> b = [] then []
      else if a = [] then filepath_Clean b
      else if b = [] then filepath_Clean a
      else filepath_Clean (a @ ''/'' @ b))"

subsection \<open>Semantic versions\<close>

text \<open>
  The value that \<open>semver.NewVersion\<close> returns. The parser is a function of the
  Masterminds library; \<open>equivalentVersions\<close> takes it as a parameter.
\<close>

record version =
  Major :: nat
  Minor :: nat
  Patch :: nat
  Prerelease :: string
  BuildMetadata :: string

definition equivalentVersions :: "(string \<Rightarrow> err + version) \<Rightarrow> string \<Rightarrow> string \<Rightarrow> bool" where
  "equivalentVersions newVersion current target =
     (case newVersion current of
        Inl e \<Rightarrow> False
      | Inr curV \<Rightarrow>
          (case newVersion target of
             Inl e \<Rightarrow> False
           | Inr tarV \<Rightarrow>
               if Major curV = Major tarV \<and> Minor curV = Minor tarV \<and> Patch curV = Patch tarV
               then True
               else False))"

subsection \<open>The installer\<close>

text \<open>
  \<open>repoURL\<close> is a pointer that \<open>NewInstaller\<close> compares with the pointer of the default
  URL: \<open>DefaultRepo\<close> and \<open>UnstableRepo\<close> are the two URLs that \<open>NewInstaller\<close> parses
  itself, \<open>CustomRepo\<close> is a pointer given by the caller (possibly nil).
\<close>

datatype url_ptr = DefaultRepo | UnstableRepo | CustomRepo "string option"

record installer =
  repoURL :: url_ptr
  chartName :: string
  releaseName :: string
  namespace :: string
  cacheDir :: string
  unstable :: bool
  rollbackOnError :: bool
  force :: bool

datatype modifier =
    WithRepoURL "string option"
  | WithChartName string
  | WithNamespace string
  | WithLogger
  | WithCacheDir string
  | AllowUnstableVersions bool
  | RollbackOnError bool
  | Force bool

fun apply_modifier :: "installer \<Rightarrow> modifier \<Rightarrow> installer" where
  "apply_modifier h (WithRepoURL u) = h\<lparr>repoURL := CustomRepo u\<rparr>"
| "apply_modifier h (WithChartName name) = h\<lparr>chartName := name\<rparr>"
| "apply_modifier h (WithNamespace ns) = h\<lparr>namespace := ns\<rparr>"
| "apply_modifier h WithLogger = h"
| "apply_modifier h (WithCacheDir c) = h\<lparr>cacheDir := c\<rparr>"
| "apply_modifier h (AllowUnstableVersions d) = h\<lparr>unstable := d\<rparr>"
| "apply_modifier h (RollbackOnError r) = h\<lparr>rollbackOnError := r\<rparr>"
| "apply_modifier h (Force f) = h\<lparr>force := f\<rparr>"

subsection \<open>Collaborators, events and state\<close>

text \<open>
  The clients, the loader and the filesystem. A result that the code discards with
  \<open>_\<close> is left out, so a call that returns \<open>(x, error)\<close> and uses only the error
  gives \<open>err option\<close>. \<open>'p\<close> is the type of the parameter map.
\<close>

record ('w, 'p) env =
  getClient_Run :: "string \<Rightarrow> 'w \<Rightarrow> (err + release option) \<times> 'w"
  installClient_Run :: "chart option \<Rightarrow> 'p \<Rightarrow> 'w \<Rightarrow> err option \<times> 'w"
  upgradeClient_Run :: "string \<Rightarrow> chart option \<Rightarrow> 'p \<Rightarrow> 'w \<Rightarrow> err option \<times> 'w"
  rollbackClient_Run :: "string \<Rightarrow> 'w \<Rightarrow> err option \<times> 'w"
  uninstallClient_Run :: "string \<Rightarrow> 'w \<Rightarrow> err option \<times> 'w"
  pullClient_SetDestDir :: "string \<Rightarrow> 'w \<Rightarrow> 'w"
  pullClient_SetVersion :: "string \<Rightarrow> 'w \<Rightarrow> 'w"
  pullClient_Run :: "string \<Rightarrow> 'w \<Rightarrow> err option \<times> 'w"
  load :: "string \<Rightarrow> 'w \<Rightarrow> (err + chart option) \<times> 'w"
  tempDir :: "string \<Rightarrow> string \<Rightarrow> 'w \<Rightarrow> (err + string) \<times> 'w"
  fs_Stat :: "string \<Rightarrow> 'w \<Rightarrow> err option \<times> 'w"
  fs_MkdirAll :: "string \<Rightarrow> 'w \<Rightarrow> err option \<times> 'w"
  fs_RemoveAll :: "string \<Rightarrow> 'w \<Rightarrow> err option \<times> 'w"
  fs_ReadDir :: "string \<Rightarrow> 'w \<Rightarrow> (err + string list) \<times> 'w"
  fs_Rename :: "string \<Rightarrow> string \<Rightarrow> 'w \<Rightarrow> err option \<times> 'w"
  home :: "'w \<Rightarrow> (err + string) \<times> 'w"
  actionConfig_Init :: "string \<Rightarrow> 'w \<Rightarrow> err option \<times> 'w"
  os_IsNotExist :: "err \<Rightarrow> bool"
  semver_NewVersion :: "string \<Rightarrow> err + version"

datatype event =
    GetRun string
  | InstallRun "chart option"
  | UpgradeRun string "chart option"
  | RollbackRun string
  | UninstallRun string
  | PullSetDestDir string
  | PullSetVersion string
  | PullRun string
  | Load string
  | TempDir string string
  | FsStat string
  | FsRemoveAll string
  | FsReadDir string
  | FsRename string string

text \<open>
  The state of a session: the installer struct (the receiver \<open>h\<close>), the world of the
  collaborators, and the calls made so far, oldest first.
\<close>

record 'w state =
  inst :: installer
  world :: 'w
  calls :: "event list"

text \<open>One call of a collaborator: run it on the world and log the event.\<close>

definition call :: "event \<Rightarrow> ('w \<Rightarrow> 'a \<times> 'w) \<Rightarrow> 'w state \<Rightarrow> 'a \<times> 'w state" where
  "call ev f s =
     (case f (world s) of (r, w') \<Rightarrow> (r, s\<lparr>world := w', calls := calls s @ [ev]\<rparr>))"

definition call_unit :: "event \<Rightarrow> ('w \<Rightarrow> 'w) \<Rightarrow> 'w state \<Rightarrow> 'w state" where
  "call_unit ev f s = s\<lparr>world := f (world s), calls := calls s @ [ev]\<rparr>"

section \<open>The operations\<close>

subsection \<open>NewInstaller\<close>

definition url_String :: "url_ptr \<Rightarrow> err + string" where
  "url_String u =
     (case u of
        DefaultRepo \<Rightarrow> Inr defaultRepoURL
      | UnstableRepo \<Rightarrow> Inr defaultUnstableRepoURL
      | CustomRepo None \<Rightarrow> Inl (Panic ''runtime error: invalid memory address or nil pointer dereference'')
      | CustomRepo (Some s) \<Rightarrow> Inr s)"

definition initial_installer :: installer where
  "initial_installer =
     \<lparr>repoURL = DefaultRepo, chartName = defaultChartName, releaseName = defaultChartName,
      namespace = defaultNamespace, cacheDir = [], unstable = False,
      rollbackOnError = False, force = False\<rparr>"

text \<open>
  The construction of the clients has no effect on the installer struct other than
  storing them; of that part only the nil dereference of \<open>h.repoURL.String()\<close> is kept.
\<close>

definition NewInstaller ::
  "('w, 'p) env \<Rightarrow> modifier list \<Rightarrow> 'w \<Rightarrow> (err + installer) \<times> 'w" where
  "NewInstaller env modifiers w =
     (let h = foldl apply_modifier initial_installer modifiers;
          h = (if unstable h \<and> repoURL h = DefaultRepo then h\<lparr>repoURL := UnstableRepo\<rparr> else h)
      in case (if cacheDir h = []
               then (case home env w of
                       (Inl e, w1) \<Rightarrow> (Inl e, w1)
                     | (Inr hm, w1) \<Rightarrow> (Inr (h\<lparr>cacheDir := filepath_Join hm defaultCacheDir\<rparr>), w1))
               else (Inr h, w)) of
           (Inl e, w1) \<Rightarrow> (Inl e, w1)
         | (Inr h, w1) \<Rightarrow>
             (case actionConfig_Init env (namespace h) w1 of
                (Some e, w2) \<Rightarrow> (Inl e, w2)
              | (None, w2) \<Rightarrow>
                  (case (case fs_Stat env (cacheDir h) w2 of
                           (Some e, w3) \<Rightarrow>
                             if \<not> os_IsNotExist env e then (Some e, w3)
                             else fs_MkdirAll env (cacheDir h) w3
                         | (None, w3) \<Rightarrow> (None, w3)) of
                     (Some e, w4) \<Rightarrow> (Inl e, w4)
                   | (None, w4) \<Rightarrow>
                       (case url_String (repoURL h) of
                          Inl e \<Rightarrow> (Inl e, w4)
                        | Inr u \<Rightarrow> (Inr h, w4)))))"

subsection \<open>GetCurrentVersion\<close>

text \<open>The last two statements of \<open>GetCurrentVersion\<close>: the nil checks and the result.\<close>

definition release_version :: "release option \<Rightarrow> err + string" where
  "release_version rel =
     (case rel of
        None \<Rightarrow> Inl (ErrorString errVerifyInstalledVersion)
      | Some r \<Rightarrow>
          (case Chart r of
             None \<Rightarrow> Inl (ErrorString errVerifyInstalledVersion)
           | Some c \<Rightarrow>
               (case Metadata c of
                  None \<Rightarrow> Inl (ErrorString errVerifyInstalledVersion)
                | Some m \<Rightarrow> Inr (Version m))))"

definition GetCurrentVersion :: "('w, 'p) env \<Rightarrow> 'w state \<Rightarrow> (err + string) \<times> 'w state" where
  "GetCurrentVersion env s =
     (case call (GetRun defaultChartName) (getClient_Run env defaultChartName) s of
        (Inl e, s1) \<Rightarrow>
          if \<not> errors_Is e ErrReleaseNotFound then (Inl e, s1)
          else
            (case call (GetRun crossplaneChartName) (getClient_Run env crossplaneChartName) s1 of
               (Inl e2, s2) \<Rightarrow>
                 (Inl (Wrap e2 (errGetInstalledReleaseFmt (namespace (inst s2)))), s2)
             | (Inr rel, s2) \<Rightarrow>
                 (release_version rel,
                  s2\<lparr>inst := (inst s2)\<lparr>releaseName := crossplaneChartName\<rparr>\<rparr>))
      | (Inr rel, s1) \<Rightarrow> (release_version rel, s1))"

subsection \<open>pullChart and pullAndLoad\<close>

definition pullChart :: "('w, 'p) env \<Rightarrow> string \<Rightarrow> 'w state \<Rightarrow> err option \<times> 'w state" where
  "pullChart env version s =
     (let version = (if version = [] then allVersions else version);
          s1 = call_unit (PullSetVersion version) (pullClient_SetVersion env version) s
      in call (PullRun (chartName (inst s1))) (pullClient_Run env (chartName (inst s1))) s1)"

text \<open>
  The branch of \<open>pullAndLoad\<close> for the empty version, from the statement after the
  \<open>defer\<close> to the \<open>return\<close>; the deferred \<open>RemoveAll\<close> runs after it in \<open>pullAndLoad\<close>.
\<close>

definition pullAndLoad_latest ::
  "('w, 'p) env \<Rightarrow> string \<Rightarrow> string \<Rightarrow> string \<Rightarrow> 'w state \<Rightarrow> (err + chart option) \<times> 'w state" where
  "pullAndLoad_latest env version fileName tmp s =
     (let s1 = call_unit (PullSetDestDir tmp) (pullClient_SetDestDir env tmp) s
      in case pullChart env version s1 of
           (Some e, s2) \<Rightarrow> (Inl (Wrap e errPullChart), s2)
         | (None, s2) \<Rightarrow>
             (case call (FsReadDir tmp) (fs_ReadDir env tmp) s2 of
                (Inl e, s3) \<Rightarrow> (Inl (Wrap e errGetLatestPulled), s3)
              | (Inr files, s3) \<Rightarrow>
                  if length files \<noteq> 1
                  then (Inl (ErrorString (errCorruptTempDirFmt (cacheDir (inst s3)))), s3)
                  else
                    (let tmpFileName = filepath_Join tmp (files ! 0)
                     in case call (FsRename tmpFileName fileName)
                               (fs_Rename env tmpFileName fileName) s3 of
                          (Some e, s4) \<Rightarrow> (Inl (Wrap e errMoveLatest), s4)
                        | (None, s4) \<Rightarrow> call (Load fileName) (load env fileName) s4)))"

definition pullAndLoad ::
  "('w, 'p) env \<Rightarrow> string \<Rightarrow> 'w state \<Rightarrow> (err + chart option) \<times> 'w state" where
  "pullAndLoad env version s =
     (let version = strings_TrimPrefix version ''v'';
          fileName = filepath_Join (cacheDir (inst s))
                       (chartName (inst s) @ ''-'' @ version @ ''.tgz'')
      in if version \<noteq> []
         then
           (case call (FsStat (filepath_Join (cacheDir (inst s)) fileName))
                   (fs_Stat env (filepath_Join (cacheDir (inst s)) fileName)) s of
              (Some e, s1) \<Rightarrow>
                (let s2 = call_unit (PullSetDestDir (cacheDir (inst s1)))
                            (pullClient_SetDestDir env (cacheDir (inst s1))) s1
                 in case pullChart env version s2 of
                      (Some e, s3) \<Rightarrow> (Inl (Wrap e errPullChart), s3)
                    | (None, s3) \<Rightarrow> call (Load fileName) (load env fileName) s3)
            | (None, s1) \<Rightarrow> call (Load fileName) (load env fileName) s1)
         else
           (case call (TempDir (cacheDir (inst s)) []) (tempDir env (cacheDir (inst s)) []) s of
              (Inl e, s1) \<Rightarrow> (Inl e, s1)
            | (Inr tmp, s1) \<Rightarrow>
                (case pullAndLoad_latest env version fileName tmp s1 of
                   (r, s2) \<Rightarrow>
                     (case call (FsRemoveAll tmp) (fs_RemoveAll env tmp) s2 of
                        (e, s3) \<Rightarrow> (r, s3)))))"

subsection \<open>Install, Upgrade, Uninstall\<close>

definition Install ::
  "('w, 'p) env \<Rightarrow> string \<Rightarrow> 'p \<Rightarrow> 'w state \<Rightarrow> err option \<times> 'w state" where
  "Install env version parameters s =
     (case GetCurrentVersion env s of
        (Inr current, s1) \<Rightarrow> (Some (ErrorString (errChartAlreadyInstalledFmt current)), s1)
      | (Inl e, s1) \<Rightarrow>
          if \<not> errors_Is e ErrReleaseNotFound
          then (Some (Wrap e errVerifyChartNotInstalled), s1)
          else
            (case pullAndLoad env version s1 of
               (Inl e2, s2) \<Rightarrow> (Some e2, s2)
             | (Inr chart, s2) \<Rightarrow>
                 call (InstallRun chart) (installClient_Run env chart parameters) s2))"

definition Upgrade ::
  "('w, 'p) env \<Rightarrow> string \<Rightarrow> 'p \<Rightarrow> 'w state \<Rightarrow> err option \<times> 'w state" where
  "Upgrade env version parameters s =
     (case GetCurrentVersion env s of
        (Inl e, s1) \<Rightarrow> (Some e, s1)
      | (Inr current, s1) \<Rightarrow>
          if releaseName (inst s1) = crossplaneChartName
             \<and> \<not> equivalentVersions (semver_NewVersion env) current version
             \<and> \<not> force (inst s1)
          then (Some (ErrorString errUpgradeCrossplaneVersion), s1)
          else
            (case pullAndLoad env version s1 of
               (Inl e, s2) \<Rightarrow> (Some e, s2)
             | (Inr chart, s2) \<Rightarrow>
                 (case call (UpgradeRun (releaseName (inst s2)) chart)
                         (upgradeClient_Run env (releaseName (inst s2)) chart parameters) s2 of
                    (Some upErr, s3) \<Rightarrow>
                      if rollbackOnError (inst s3)
                      then
                        (case call (RollbackRun (releaseName (inst s3)))
                                (rollbackClient_Run env (releaseName (inst s3))) s3 of
                           (Some rErr, s4) \<Rightarrow> (Some (Wrap rErr errFailedUpgradeFailedRollback), s4)
                         | (None, s4) \<Rightarrow> (Some (Wrap upErr errFailedUpgradeRollback), s4))
                      else (Some upErr, s3)
                  | (None, s3) \<Rightarrow> (None, s3))))"

definition Uninstall :: "('w, 'p) env \<Rightarrow> 'w state \<Rightarrow> err option \<times> 'w state" where
  "Uninstall env s =
     call (UninstallRun (chartName (inst s))) (uninstallClient_Run env (chartName (inst s))) s"

section \<open>A simulated environment\<close>

text \<open>
  To run the operations on concrete inputs, the collaborators are instantiated with a
  small simulation: a release store that is an association list, a filesystem that is
  a list of file paths, a puller that writes \<open><dest>/<chart>-<version>.tgz\<close> as Helm
  does, and a parser for the version grammar of the semver library. The general
  theorems do not depend on it.
\<close>

record sim =
  releases :: "(string \<times> release option) list"
  paths :: "string list"
  destDir :: string
  pullVersion :: string
  repoLatest :: "string list"
  upgradeErr :: "err option"
  rollbackErr :: "err option"
  renameErr :: "err option"

definition under :: "string \<Rightarrow> string \<Rightarrow> bool" where
  "under d f = (take (length d + 1) f = d @ ''/'')"

definition sim_get :: "string \<Rightarrow> sim \<Rightarrow> (err + release option) \<times> sim" where
  "sim_get name w =
     (case map_of (releases w) name of None \<Rightarrow> Inl ErrReleaseNotFound | Some r \<Rightarrow> Inr r, w)"

definition sim_install :: "chart option \<Rightarrow> unit \<Rightarrow> sim \<Rightarrow> err option \<times> sim" where
  "sim_install c p w =
     (None, w\<lparr>releases := (defaultChartName, Some \<lparr>Chart = c\<rparr>) # releases w\<rparr>)"

definition sim_upgrade :: "string \<Rightarrow> chart option \<Rightarrow> unit \<Rightarrow> sim \<Rightarrow> err option \<times> sim" where
  "sim_upgrade name c p w =
     (case upgradeErr w of
        Some e \<Rightarrow> (Some e, w)
      | None \<Rightarrow> (None, w\<lparr>releases := (name, Some \<lparr>Chart = c\<rparr>) # releases w\<rparr>))"

definition sim_rollback :: "string \<Rightarrow> sim \<Rightarrow> err option \<times> sim" where
  "sim_rollback name w = (rollbackErr w, w)"

definition sim_uninstall :: "string \<Rightarrow> sim \<Rightarrow> err option \<times> sim" where
  "sim_uninstall name w =
     (if map_of (releases w) name = None
      then (Some (Wrap ErrReleaseNotFound (''uninstall: Release not loaded: '' @ name)), w)
      else (None, w\<lparr>releases := filter (\<lambda>nr. fst nr \<noteq> name) (releases w)\<rparr>))"

definition sim_pull :: "string \<Rightarrow> sim \<Rightarrow> err option \<times> sim" where
  "sim_pull c w =
     (None,
      w\<lparr>paths := paths w @
          map (\<lambda>v. filepath_Join (destDir w) (c @ ''-'' @ v @ ''.tgz''))
            (if pullVersion w = allVersions then repoLatest w else [pullVersion w])\<rparr>)"

definition sim_load :: "string \<Rightarrow> sim \<Rightarrow> (err + chart option) \<times> sim" where
  "sim_load p w =
     (if p \<in> set (paths w) then Inr (Some \<lparr>Metadata = Some \<lparr>Name = p, Version = []\<rparr>\<rparr>)
      else Inl (ErrorString ''no such file''), w)"

definition sim_stat :: "string \<Rightarrow> sim \<Rightarrow> err option \<times> sim" where
  "sim_stat p w =
     (if p \<in> set (paths w) then None else Some (ErrorString ''file does not exist''), w)"

definition sim_readdir :: "string \<Rightarrow> sim \<Rightarrow> (err + string list) \<times> sim" where
  "sim_readdir d w = (Inr (map (drop (length d + 1)) (filter (under d) (paths w))), w)"

definition sim_rename :: "string \<Rightarrow> string \<Rightarrow> sim \<Rightarrow> err option \<times> sim" where
  "sim_rename a b w =
     (case renameErr w of
        Some e \<Rightarrow> (Some e, w)
      | None \<Rightarrow>
          if a \<in> set (paths w) then (None, w\<lparr>paths := b # filter (\<lambda>f. f \<noteq> a) (paths w)\<rparr>)
          else (Some (ErrorString ''file does not exist''), w))"

definition sim_removeall :: "string \<Rightarrow> sim \<Rightarrow> err option \<times> sim" where
  "sim_removeall d w = (None, w\<lparr>paths := filter (\<lambda>f. \<not> under d f \<and> f \<noteq> d) (paths w)\<rparr>)"

text \<open>The version grammar: \<open>v?N(.N)?(.N)?(-pre)?(+meta)?\<close>, numbers below \<open>2^64\<close>.\<close>

definition is_digit :: "char \<Rightarrow> bool" where
  "is_digit c = (c \<in> set ''0123456789'')"

definition is_ident_char :: "char \<Rightarrow> bool" where
  "is_ident_char c =
     (c \<in> set ''0123456789abcdefghijklmnopqrstuvwxyzABCDEFGHIJKLMNOPQRSTUVWXYZ-'')"

definition digit_value :: "char \<Rightarrow> nat" where
  "digit_value c = length (takeWhile (\<lambda>d. d \<noteq> c) ''0123456789'')"

definition parse_uint :: "string \<Rightarrow> nat option" where
  "parse_uint ds =
     (let n = foldl (\<lambda>a c. 10 * a + digit_value c) 0 ds
      in if ds \<noteq> [] \<and> list_all is_digit ds \<and> n < 2 ^ 64 then Some n else None)"

definition split_first :: "char \<Rightarrow> string \<Rightarrow> string \<times> string option" where
  "split_first d cs =
     (takeWhile (\<lambda>c. c \<noteq> d) cs,
      case dropWhile (\<lambda>c. c \<noteq> d) cs of [] \<Rightarrow> None | x # r \<Rightarrow> Some r)"

definition valid_idents :: "string option \<Rightarrow> bool" where
  "valid_idents p =
     (case p of
        None \<Rightarrow> True
      | Some cs \<Rightarrow> list_all (\<lambda>seg. seg \<noteq> [] \<and> list_all is_ident_char seg) (split_on (CHR ''.'') cs))"

text \<open>A numeric prerelease identifier must not start with a zero.\<close>

definition valid_prerelease :: "string option \<Rightarrow> bool" where
  "valid_prerelease p =
     (valid_idents p \<and>
      (case p of
         None \<Rightarrow> True
       | Some cs \<Rightarrow>
           list_all (\<lambda>seg. \<not> (list_all is_digit seg \<and> 1 < length seg \<and> take 1 seg = ''0''))
             (split_on (CHR ''.'') cs)))"

definition sim_NewVersion :: "string \<Rightarrow> err + version" where
  "sim_NewVersion str =
     (let (left, meta) = split_first (CHR ''+'') (strings_TrimPrefix str ''v'');
          (core, pre) = split_first (CHR ''-'') left
      in case map parse_uint (split_on (CHR ''.'') core) of
           [Some a] \<Rightarrow>
             if valid_prerelease pre \<and> valid_idents meta
             then Inr \<lparr>Major = a, Minor = 0, Patch = 0,
                       Prerelease = (case pre of None \<Rightarrow> [] | Some x \<Rightarrow> x),
                       BuildMetadata = (case meta of None \<Rightarrow> [] | Some x \<Rightarrow> x)\<rparr>
             else Inl (ErrorString ''Invalid Semantic Version'')
         | [Some a, Some b] \<Rightarrow>
             if valid_prerelease pre \<and> valid_idents meta
             then Inr \<lparr>Major = a, Minor = b, Patch = 0,
                       Prerelease = (case pre of None \<Rightarrow> [] | Some x \<Rightarrow> x),
                       BuildMetadata = (case meta of None \<Rightarrow> [] | Some x \<Rightarrow> x)\<rparr>
             else Inl (ErrorString ''Invalid Semantic Version'')
         | [Some a, Some b, Some c] \<Rightarrow>
             if valid_prerelease pre \<and> valid_idents meta
             then Inr \<lparr>Major = a, Minor = b, Patch = c,
                       Prerelease = (case pre of None \<Rightarrow> [] | Some x \<Rightarrow> x),
                       BuildMetadata = (case meta of None \<Rightarrow> [] | Some x \<Rightarrow> x)\<rparr>
             else Inl (ErrorString ''Invalid Semantic Version'')
         | _ \<Rightarrow> Inl (ErrorString ''Invalid Semantic Version''))"

definition sim_env :: "(sim, unit) env" where
  "sim_env =
     \<lparr>getClient_Run = sim_get,
      installClient_Run = sim_install,
      upgradeClient_Run = sim_upgrade,
      rollbackClient_Run = sim_rollback,
      uninstallClient_Run = sim_uninstall,
      pullClient_SetDestDir = (\<lambda>d w. w\<lparr>destDir := d\<rparr>),
      pullClient_SetVersion = (\<lambda>v w. w\<lparr>pullVersion := v\<rparr>),
      pullClient_Run = sim_pull,
      load = sim_load,
      tempDir = (\<lambda>dir prefix w. (Inr (filepath_Join dir (prefix @ ''tmp0'')), w)),
      fs_Stat = sim_stat,
      fs_MkdirAll = (\<lambda>p w. (None, w)),
      fs_RemoveAll = sim_removeall,
      fs_ReadDir = sim_readdir,
      fs_Rename = sim_rename,
      home = (\<lambda>w. (Inr ''/home/u'', w)),
      actionConfig_Init = (\<lambda>ns w. (None, w)),
      os_IsNotExist = (\<lambda>e. e = ErrorString ''file does not exist''),
      semver_NewVersion = sim_NewVersion\<rparr>"

text \<open>An empty cluster and an empty cache, and an installer with cache \<open>/cache\<close>.\<close>

definition sim_world :: sim where
  "sim_world =
     \<lparr>releases = [], paths = [], destDir = [], pullVersion = [], repoLatest = [''1.2.3''],
      upgradeErr = None, rollbackErr = None, renameErr = None\<rparr>"

definition sim_installer :: installer where
  "sim_installer = initial_installer\<lparr>cacheDir := ''/cache''\<rparr>"

definition sim_release :: "string \<Rightarrow> release option" where
  "sim_release v = Some \<lparr>Chart = Some \<lparr>Metadata = Some \<lparr>Name = ''chart'', Version = v\<rparr>\<rparr>\<rparr>"

definition sim_state :: "installer \<Rightarrow> sim \<Rightarrow> sim state" where
  "sim_state h w = \<lparr>inst = h, world = w, calls = []\<rparr>"

subsection \<open>Fixtures\<close>

text \<open>
  Worlds with one release under the canonical or the legacy name, two clients whose
  lookups fail, and the starting states of the runs below.
\<close>

definition canonical_world :: "string \<Rightarrow> sim" where
  "canonical_world v = sim_world\<lparr>releases := [(defaultChartName, sim_release v)]\<rparr>"

definition legacy_world :: "string \<Rightarrow> sim" where
  "legacy_world v = sim_world\<lparr>releases := [(crossplaneChartName, sim_release v)]\<rparr>"

definition failing_get_env :: "(sim, unit) env" where
  "failing_get_env =
     sim_env\<lparr>getClient_Run := (\<lambda>n w. (Inl (ErrorString ''connection refused''), w))\<rparr>"

definition failing_legacy_get_env :: "(sim, unit) env" where
  "failing_legacy_get_env =
     sim_env\<lparr>getClient_Run :=
       (\<lambda>n w. (if n = defaultChartName then Inl ErrReleaseNotFound
                else Inl (ErrorString ''connection refused''), w))\<rparr>"

definition failed_upgrade_state :: "err option \<Rightarrow> sim state" where
  "failed_upgrade_state rErr =
     sim_state (sim_installer\<lparr>rollbackOnError := True\<rparr>)
       ((canonical_world ''0.9.0'')\<lparr>upgradeErr := Some (ErrorString ''upgrade failed''),
                                    rollbackErr := rErr\<rparr>)"

definition legacy_upgrade_state :: "bool \<Rightarrow> sim state" where
  "legacy_upgrade_state f = sim_state (sim_installer\<lparr>force := f\<rparr>) (legacy_world ''1.0.0'')"

definition first_pull :: "(err + chart option) \<times> sim state" where
  "first_pull = pullAndLoad sim_env ''1.0.0'' (sim_state sim_installer sim_world)"

definition second_pull :: "(err + chart option) \<times> sim state" where
  "second_pull = pullAndLoad sim_env ''1.0.0'' (snd first_pull)"

definition latest_pull_state :: "string list \<Rightarrow> sim state" where
  "latest_pull_state vs = sim_state sim_installer (sim_world\<lparr>repoLatest := vs\<rparr>)"

definition latest_rename_state :: "err option \<Rightarrow> sim state" where
  "latest_rename_state e = sim_state sim_installer (sim_world\<lparr>renameErr := e\<rparr>)"

section \<open>Basic facts\<close>

text \<open>
  The definitions unfolded to run the model, the calls of each operation written out
  on the world, and the fields of the installer that an operation leaves alone.
\<close>

lemmas model_defs =
  GetCurrentVersion_def Install_def Upgrade_def Uninstall_def pullAndLoad_def
  pullAndLoad_latest_def pullChart_def call_def call_unit_def release_version_def
  equivalentVersions_def strings_TrimPrefix_def filepath_Join_def filepath_Clean_def
  defaultChartName_def crossplaneChartName_def allVersions_def Let_def

lemmas sim_defs =
  sim_env_def sim_world_def sim_installer_def sim_state_def sim_release_def
  initial_installer_def sim_get_def sim_install_def sim_upgrade_def sim_rollback_def
  sim_uninstall_def sim_pull_def sim_load_def sim_stat_def sim_readdir_def sim_rename_def
  sim_removeall_def under_def sim_NewVersion_def split_first_def parse_uint_def
  is_digit_def is_ident_char_def digit_value_def valid_idents_def valid_prerelease_def
  canonical_world_def legacy_world_def failing_get_env_def failing_legacy_get_env_def

lemma call_eq:
  "call ev f s = (fst (f (world s)), s\<lparr>world := snd (f (world s)), calls := calls s @ [ev]\<rparr>)"
  by (simp add: call_def split_beta)

lemma pullChart_eq:
  "pullChart env version s =
     (let v = (if version = [] then allVersions else version);
          w1 = pullClient_SetVersion env v (world s);
          r = pullClient_Run env (chartName (inst s)) w1
      in (fst r, s\<lparr>world := snd r,
                    calls := calls s @ [PullSetVersion v, PullRun (chartName (inst s))]\<rparr>))"
  by (simp add: pullChart_def call_eq call_unit_def Let_def)

lemma pullChart_inst: "inst (snd (pullChart env version s)) = inst s"
  by (simp add: pullChart_eq Let_def)

lemma pullAndLoad_latest_inst:
  "inst (snd (pullAndLoad_latest env version fileName tmp s)) = inst s"
  by (simp add: pullAndLoad_latest_def call_eq call_unit_def pullChart_eq Let_def
      split: prod.splits option.splits sum.splits)

lemma pullAndLoad_inst: "inst (snd (pullAndLoad env version s)) = inst s"
  by (simp add: pullAndLoad_def call_eq call_unit_def pullChart_eq Let_def split_beta
      pullAndLoad_latest_inst split: option.splits sum.splits)

lemma GetCurrentVersion_cases:
  "GetCurrentVersion env s =
     (let r1 = getClient_Run env defaultChartName (world s);
          r2 = getClient_Run env crossplaneChartName (snd r1)
      in case fst r1 of
           Inr rel \<Rightarrow>
             (release_version rel,
              s\<lparr>world := snd r1, calls := calls s @ [GetRun defaultChartName]\<rparr>)
         | Inl e \<Rightarrow>
             if \<not> errors_Is e ErrReleaseNotFound
             then (Inl e, s\<lparr>world := snd r1, calls := calls s @ [GetRun defaultChartName]\<rparr>)
             else
               (case fst r2 of
                  Inl e2 \<Rightarrow>
                    (Inl (Wrap e2 (errGetInstalledReleaseFmt (namespace (inst s)))),
                     s\<lparr>world := snd r2,
                       calls := calls s @ [GetRun defaultChartName, GetRun crossplaneChartName]\<rparr>)
                | Inr rel \<Rightarrow>
                    (release_version rel,
                     s\<lparr>inst := (inst s)\<lparr>releaseName := crossplaneChartName\<rparr>,
                       world := snd r2,
                       calls := calls s @ [GetRun defaultChartName, GetRun crossplaneChartName]\<rparr>)))"
  by (simp add: GetCurrentVersion_def call_eq Let_def split: sum.splits)


lemma GetCurrentVersion_inst:
  "inst (snd (GetCurrentVersion env s)) = inst s \<or>
   inst (snd (GetCurrentVersion env s)) = (inst s)\<lparr>releaseName := crossplaneChartName\<rparr>"
  by (simp add: GetCurrentVersion_cases Let_def split: sum.splits)

lemma GetCurrentVersion_flags:
  "rollbackOnError (inst (snd (GetCurrentVersion env s))) = rollbackOnError (inst s)"
  "force (inst (snd (GetCurrentVersion env s))) = force (inst s)"
  "chartName (inst (snd (GetCurrentVersion env s))) = chartName (inst s)"
  "cacheDir (inst (snd (GetCurrentVersion env s))) = cacheDir (inst s)"
  "namespace (inst (snd (GetCurrentVersion env s))) = namespace (inst s)"
  using GetCurrentVersion_inst [of env s] by auto


lemma pullAndLoad_empty_version:
  assumes "strings_TrimPrefix version ''v'' = []"
  shows "pullAndLoad env version s =
     (let dir = cacheDir (inst s);
          fileName = filepath_Join dir (chartName (inst s) @ ''-.tgz'');
          t = tempDir env dir [] (world s)
      in case fst t of
           Inl e \<Rightarrow> (Inl e, s\<lparr>world := snd t, calls := calls s @ [TempDir dir []]\<rparr>)
         | Inr tmp \<Rightarrow>
             (let s1 = s\<lparr>world := snd t, calls := calls s @ [TempDir dir []]\<rparr>;
                  b = pullAndLoad_latest env [] fileName tmp s1;
                  rm = fs_RemoveAll env tmp (world (snd b))
              in (fst b, (snd b)\<lparr>world := snd rm,
                                 calls := calls (snd b) @ [FsRemoveAll tmp]\<rparr>)))"
  using assms
  by (simp add: pullAndLoad_def call_eq Let_def split_beta split: sum.splits)

lemma pullAndLoad_latest_eq:
  "pullAndLoad_latest env [] fileName tmp s =
     (let c = chartName (inst s);
          w2 = pullClient_SetVersion env allVersions (pullClient_SetDestDir env tmp (world s));
          p = pullClient_Run env c w2;
          k3 = calls s @ [PullSetDestDir tmp, PullSetVersion allVersions, PullRun c];
          rd = fs_ReadDir env tmp (snd p);
          k4 = k3 @ [FsReadDir tmp]
      in case fst p of
           Some e \<Rightarrow> (Inl (Wrap e errPullChart), s\<lparr>world := snd p, calls := k3\<rparr>)
         | None \<Rightarrow>
             (case fst rd of
                Inl e \<Rightarrow> (Inl (Wrap e errGetLatestPulled), s\<lparr>world := snd rd, calls := k4\<rparr>)
              | Inr files \<Rightarrow>
                  if length files \<noteq> 1
                  then (Inl (ErrorString (errCorruptTempDirFmt (cacheDir (inst s)))),
                        s\<lparr>world := snd rd, calls := k4\<rparr>)
                  else
                    (let src = filepath_Join tmp (files ! 0);
                         mv = fs_Rename env src fileName (snd rd);
                         ld = load env fileName (snd mv)
                     in case fst mv of
                          Some e \<Rightarrow>
                            (Inl (Wrap e errMoveLatest),
                             s\<lparr>world := snd mv, calls := k4 @ [FsRename src fileName]\<rparr>)
                        | None \<Rightarrow>
                            (fst ld,
                             s\<lparr>world := snd ld,
                               calls := k4 @ [FsRename src fileName, Load fileName]\<rparr>))))"
  by (simp add: pullAndLoad_latest_def call_eq call_unit_def pullChart_eq Let_def split_beta
      split: option.splits sum.splits)

lemma foldl_apply_modifier_releaseName:
  "releaseName (foldl apply_modifier h ms) = releaseName h"
proof (induction ms arbitrary: h)
  case Nil
  show ?case by simp
next
  case (Cons m ms)
  show ?case by (cases m) (simp_all add: Cons.IH)
qed

lemma foldl_apply_modifier_chartName:
  "\<forall>n. WithChartName n \<notin> set ms \<Longrightarrow> chartName (foldl apply_modifier h ms) = chartName h"
proof (induction ms arbitrary: h)
  case Nil
  show ?case by simp
next
  case (Cons m ms)
  then show ?case by (cases m) auto
qed

lemma NewInstaller_names:
  assumes "fst (NewInstaller env ms w) = Inr h"
  shows "releaseName h = defaultChartName"
    and "\<forall>n. WithChartName n \<notin> set ms \<Longrightarrow> chartName h = defaultChartName"
proof -
  let ?h0 = "foldl apply_modifier initial_installer ms"
  have "releaseName h = releaseName ?h0 \<and> chartName h = chartName ?h0"
    using assms
    by (auto simp add: NewInstaller_def Let_def split_beta
        split: if_splits sum.splits option.splits prod.splits)
  then show "releaseName h = defaultChartName"
    and "\<forall>n. WithChartName n \<notin> set ms \<Longrightarrow> chartName h = defaultChartName"
    by (simp_all add: foldl_apply_modifier_releaseName foldl_apply_modifier_chartName
        initial_installer_def)
qed

lemma Install_inst:
  "inst (snd (Install env version parameters s)) = inst (snd (GetCurrentVersion env s))"
proof -
  have "inst (snd (pullAndLoad env version (snd (GetCurrentVersion env s)))) =
        inst (snd (GetCurrentVersion env s))"
    by (rule pullAndLoad_inst)
  then show ?thesis
    by (cases "GetCurrentVersion env s";
        cases "pullAndLoad env version (snd (GetCurrentVersion env s))")
       (auto simp add: Install_def call_eq split: sum.splits)
qed

lemma Upgrade_inst:
  "inst (snd (Upgrade env version parameters s)) = inst (snd (GetCurrentVersion env s))"
proof -
  have "inst (snd (pullAndLoad env version (snd (GetCurrentVersion env s)))) =
        inst (snd (GetCurrentVersion env s))"
    by (rule pullAndLoad_inst)
  then show ?thesis
    by (cases "GetCurrentVersion env s";
        cases "pullAndLoad env version (snd (GetCurrentVersion env s))")
       (auto simp add: Upgrade_def call_eq split_beta split: sum.splits option.splits)
qed

section \<open>Upgrade: rollback on error (C1)\<close>

text \<open>
  C1, as the code has it. Let \<open>Upgrade\<close> reach the upgrade primitive of the release
  store (the lookup succeeds, the version gate does not fire, the chart is pulled and
  loaded), let the primitive fail with \<open>upErr\<close>, and let rollback-on-error be set. Then
  the rollback primitive is called once, for the resolved release name. If it succeeds,
  \<open>Upgrade\<close> returns \<open>upErr\<close> wrapped with "failed upgrade was rolled back". If it
  fails with \<open>rErr\<close>, \<open>Upgrade\<close> returns \<open>rErr\<close> wrapped with "failed upgrade resulted
  in a failed rollback": the returned error wraps the rollback error only.
\<close>

theorem Upgrade_rollback_on_error:
  fixes env :: "('w, 'p) env" and s version chart parameters
  defines "s1 \<equiv> snd (GetCurrentVersion env s)"
  defines "s2 \<equiv> snd (pullAndLoad env version s1)"
  defines "name \<equiv> releaseName (inst s1)"
  defines "up \<equiv> upgradeClient_Run env name chart parameters (world s2)"
  defines "rb \<equiv> rollbackClient_Run env name (snd up)"
  defines "s4 \<equiv> s2\<lparr>world := snd rb, calls := calls s2 @ [UpgradeRun name chart, RollbackRun name]\<rparr>"
  assumes "fst (GetCurrentVersion env s) = Inr current"
    and "\<not> (releaseName (inst s1) = crossplaneChartName
            \<and> \<not> equivalentVersions (semver_NewVersion env) current version
            \<and> \<not> force (inst s))"
    and "fst (pullAndLoad env version s1) = Inr chart"
    and "fst up = Some upErr"
    and "rollbackOnError (inst s)"
  shows "(fst rb = None \<longrightarrow>
            Upgrade env version parameters s = (Some (Wrap upErr errFailedUpgradeRollback), s4))
       \<and> (fst rb = Some rErr \<longrightarrow>
            Upgrade env version parameters s =
              (Some (Wrap rErr errFailedUpgradeFailedRollback), s4))"
proof -
  have i2: "inst s2 = inst s1"
    by (simp add: s2_def pullAndLoad_inst)
  have f: "force (inst s1) = force (inst s)" "rollbackOnError (inst s1) = rollbackOnError (inst s)"
    by (simp_all add: s1_def GetCurrentVersion_flags)
  have g: "GetCurrentVersion env s = (Inr current, s1)"
    using assms(7) by (simp add: s1_def prod_eq_iff)
  have p: "pullAndLoad env version s1 = (Inr chart, s2)"
    using assms(9) by (simp add: s2_def prod_eq_iff)
  show ?thesis
    using assms(8,10,11) f i2
    by (auto simp add: Upgrade_def g p call_eq name_def up_def rb_def s4_def)
qed

text \<open>
  The theorem of C1 at a store whose upgrade fails, once with a rollback that succeeds
  and once with a rollback that fails.
\<close>

theorem Upgrade_rollback_on_error_witness:
  "fst (Upgrade sim_env ''1.0.0'' () (failed_upgrade_state None)) =
     Some (Wrap (ErrorString ''upgrade failed'') errFailedUpgradeRollback)
   \<and> fst (Upgrade sim_env ''1.0.0'' () (failed_upgrade_state (Some (ErrorString ''rollback failed'')))) =
     Some (Wrap (ErrorString ''rollback failed'') errFailedUpgradeFailedRollback)"
proof -
  let ?chart = "Some \<lparr>Metadata = Some \<lparr>Name = ''/cache/universal-crossplane-1.0.0.tgz'',
                                        Version = []\<rparr>\<rparr>"
  have ok: "fst (Upgrade sim_env ''1.0.0'' () (failed_upgrade_state None)) =
     Some (Wrap (ErrorString ''upgrade failed'') errFailedUpgradeRollback)"
  proof -
    let ?S = "failed_upgrade_state None"
    let ?s1 = "snd (GetCurrentVersion sim_env ?S)"
    let ?s2 = "snd (pullAndLoad sim_env ''1.0.0'' ?s1)"
    let ?up = "upgradeClient_Run sim_env (releaseName (inst ?s1)) ?chart () (world ?s2)"
    have h1: "fst (GetCurrentVersion sim_env ?S) = Inr ''0.9.0''"
      by (simp add: failed_upgrade_state_def model_defs sim_defs)
    have h2: "\<not> (releaseName (inst ?s1) = crossplaneChartName
            \<and> \<not> equivalentVersions (semver_NewVersion sim_env) ''0.9.0'' ''1.0.0''
            \<and> \<not> force (inst ?S))"
      by (simp add: failed_upgrade_state_def model_defs sim_defs)
    have h3: "fst (pullAndLoad sim_env ''1.0.0'' ?s1) = Inr ?chart"
      by (simp add: failed_upgrade_state_def model_defs sim_defs)
    have h4: "fst ?up = Some (ErrorString ''upgrade failed'')"
      by (simp add: failed_upgrade_state_def model_defs sim_defs)
    have h5: "rollbackOnError (inst ?S)"
      by (simp add: failed_upgrade_state_def model_defs sim_defs)
    have rb: "fst (rollbackClient_Run sim_env (releaseName (inst ?s1)) (snd ?up)) = None"
      by (simp add: failed_upgrade_state_def model_defs sim_defs)
    show ?thesis
      using Upgrade_rollback_on_error [OF h1 h2 h3 h4 h5] rb by simp
  qed
  have failed: "fst (Upgrade sim_env ''1.0.0'' () (failed_upgrade_state (Some (ErrorString ''rollback failed'')))) =
     Some (Wrap (ErrorString ''rollback failed'') errFailedUpgradeFailedRollback)"
  proof -
    let ?S = "failed_upgrade_state (Some (ErrorString ''rollback failed''))"
    let ?s1 = "snd (GetCurrentVersion sim_env ?S)"
    let ?s2 = "snd (pullAndLoad sim_env ''1.0.0'' ?s1)"
    let ?up = "upgradeClient_Run sim_env (releaseName (inst ?s1)) ?chart () (world ?s2)"
    have h1: "fst (GetCurrentVersion sim_env ?S) = Inr ''0.9.0''"
      by (simp add: failed_upgrade_state_def model_defs sim_defs)
    have h2: "\<not> (releaseName (inst ?s1) = crossplaneChartName
            \<and> \<not> equivalentVersions (semver_NewVersion sim_env) ''0.9.0'' ''1.0.0''
            \<and> \<not> force (inst ?S))"
      by (simp add: failed_upgrade_state_def model_defs sim_defs)
    have h3: "fst (pullAndLoad sim_env ''1.0.0'' ?s1) = Inr ?chart"
      by (simp add: failed_upgrade_state_def model_defs sim_defs)
    have h4: "fst ?up = Some (ErrorString ''upgrade failed'')"
      by (simp add: failed_upgrade_state_def model_defs sim_defs)
    have h5: "rollbackOnError (inst ?S)"
      by (simp add: failed_upgrade_state_def model_defs sim_defs)
    have rb: "fst (rollbackClient_Run sim_env (releaseName (inst ?s1)) (snd ?up)) =
                Some (ErrorString ''rollback failed'')"
      by (simp add: failed_upgrade_state_def model_defs sim_defs)
    show ?thesis
      using Upgrade_rollback_on_error [OF h1 h2 h3 h4 h5] rb by simp
  qed
  show ?thesis using ok failed by simp
qed

text \<open>
  C1 as specified says that the error of a failed rollback wraps both the cause of the
  upgrade error and the rollback error. With the upgrade failing with "upgrade failed"
  and the rollback with "rollback failed", the upgrade error is not in the chain of the
  returned error.
\<close>

theorem Upgrade_rollback_failed_counterexample:
  "fst (Upgrade sim_env ''1.0.0'' () (failed_upgrade_state (Some (ErrorString ''rollback failed'')))) =
     Some (Wrap (ErrorString ''rollback failed'') errFailedUpgradeFailedRollback)
   \<and> ErrorString ''upgrade failed''
       \<notin> set (cause_chain (Wrap (ErrorString ''rollback failed'') errFailedUpgradeFailedRollback))"
  by (simp add: failed_upgrade_state_def model_defs sim_defs)

section \<open>Upgrade: the version gate for the legacy name (C2)\<close>



section \<open>pullAndLoad: the cache check for a concrete version (C3)\<close>

text \<open>
  C3. \<open>pullAndLoad\<close> computes \<open>fileName = Join(cacheDir, chart-version.tgz)\<close> and then
  calls \<open>Stat\<close> on \<open>Join(cacheDir, fileName)\<close>, which prefixes the cache directory a
  second time. With the cache directory \<open>/cache\<close>, an empty cache and a puller that
  writes \<open>/cache/universal-crossplane-1.0.0.tgz\<close>, the first call leaves that file in the
  cache, and the second call looks for \<open>/cache/cache/universal-crossplane-1.0.0.tgz\<close>,
  does not find it, and runs the puller again: two calls of \<open>pullAndLoad\<close> for the same
  chart and version invoke the puller twice.
\<close>

theorem pullAndLoad_twice_pulls_twice:
  "''/cache/universal-crossplane-1.0.0.tgz'' \<in> set (paths (world (snd first_pull)))
   \<and> calls (snd second_pull) =
       [FsStat ''/cache/cache/universal-crossplane-1.0.0.tgz'', PullSetDestDir ''/cache'',
        PullSetVersion ''1.0.0'', PullRun ''universal-crossplane'',
        Load ''/cache/universal-crossplane-1.0.0.tgz'',
        FsStat ''/cache/cache/universal-crossplane-1.0.0.tgz'', PullSetDestDir ''/cache'',
        PullSetVersion ''1.0.0'', PullRun ''universal-crossplane'',
        Load ''/cache/universal-crossplane-1.0.0.tgz'']"
  by (simp add: first_pull_def second_pull_def model_defs sim_defs)

section \<open>Install: an existing release (C4)\<close>

text \<open>
  C4. If the release store has a release with chart metadata under the canonical name,
  or reports "release not found" for the canonical name and has such a release under the
  legacy name, then \<open>Install\<close> fails with "chart already installed with version v", where
  \<open>v\<close> is the version of that release; the only calls made are the lookups (no pull, no
  load, no install), and the world is the one the last lookup returned. If a lookup
  fails with an error that is not "release not found", \<open>Install\<close> fails with that error
  wrapped with "could not verify that chart is not already installed", again after the
  lookups only.
\<close>

theorem Install_already_installed:
  fixes env :: "('w, 'p) env" and s :: "'w state" and version parameters
  defines "r1 \<equiv> getClient_Run env defaultChartName (world s)"
  defines "r2 \<equiv> getClient_Run env crossplaneChartName (snd r1)"
  defines "k1 \<equiv> calls s @ [GetRun defaultChartName]"
  defines "k2 \<equiv> calls s @ [GetRun defaultChartName, GetRun crossplaneChartName]"
  defines "res \<equiv> Install env version parameters s"
  shows "(fst r1 = Inr (Some \<lparr>Chart = Some \<lparr>Metadata = Some m\<rparr>\<rparr>) \<longrightarrow>
            res = (Some (ErrorString (errChartAlreadyInstalledFmt (Version m))),
                   s\<lparr>world := snd r1, calls := k1\<rparr>))
       \<and> (fst r1 = Inl ea \<and> errors_Is ea ErrReleaseNotFound
            \<and> fst r2 = Inr (Some \<lparr>Chart = Some \<lparr>Metadata = Some m\<rparr>\<rparr>) \<longrightarrow>
            res = (Some (ErrorString (errChartAlreadyInstalledFmt (Version m))),
                   s\<lparr>inst := (inst s)\<lparr>releaseName := crossplaneChartName\<rparr>,
                     world := snd r2, calls := k2\<rparr>))
       \<and> (fst r1 = Inl ea \<and> \<not> errors_Is ea ErrReleaseNotFound \<longrightarrow>
            res = (Some (Wrap ea errVerifyChartNotInstalled), s\<lparr>world := snd r1, calls := k1\<rparr>))
       \<and> (fst r1 = Inl ea \<and> errors_Is ea ErrReleaseNotFound
            \<and> fst r2 = Inl eb \<and> \<not> errors_Is eb ErrReleaseNotFound \<longrightarrow>
            res = (Some (Wrap (Wrap eb (errGetInstalledReleaseFmt (namespace (inst s))))
                           errVerifyChartNotInstalled),
                   s\<lparr>world := snd r2, calls := k2\<rparr>))"
  by (simp add: res_def Install_def GetCurrentVersion_cases Let_def r1_def r2_def k1_def k2_def
      release_version_def)

text \<open>
  The theorem of C4 at a release under the canonical name, a release under the legacy
  name, a store whose first lookup fails, and a store whose second lookup fails.
\<close>

theorem Install_already_installed_witness:
  "Install sim_env ''2.0.0'' () (sim_state sim_installer (canonical_world ''1.0.0'')) =
     (Some (ErrorString ''chart already installed with version 1.0.0''),
      \<lparr>inst = sim_installer, world = canonical_world ''1.0.0'',
       calls = [GetRun defaultChartName]\<rparr>)
   \<and> Install sim_env ''2.0.0'' () (sim_state sim_installer (legacy_world ''1.0.0'')) =
     (Some (ErrorString ''chart already installed with version 1.0.0''),
      \<lparr>inst = sim_installer\<lparr>releaseName := crossplaneChartName\<rparr>,
       world = legacy_world ''1.0.0'',
       calls = [GetRun defaultChartName, GetRun crossplaneChartName]\<rparr>)
   \<and> Install failing_get_env ''2.0.0'' () (sim_state sim_installer sim_world) =
     (Some (Wrap (ErrorString ''connection refused'') errVerifyChartNotInstalled),
      \<lparr>inst = sim_installer, world = sim_world, calls = [GetRun defaultChartName]\<rparr>)
   \<and> Install failing_legacy_get_env ''2.0.0'' () (sim_state sim_installer sim_world) =
     (Some (Wrap (Wrap (ErrorString ''connection refused'')
                    (errGetInstalledReleaseFmt ''upbound-system''))
              errVerifyChartNotInstalled),
      \<lparr>inst = sim_installer, world = sim_world,
       calls = [GetRun defaultChartName, GetRun crossplaneChartName]\<rparr>)"
proof -
  let ?m = "\<lparr>Name = ''chart'', Version = ''1.0.0''\<rparr>"
  let ?rel = "Some \<lparr>Chart = Some \<lparr>Metadata = Some ?m\<rparr>\<rparr>"
  let ?C = "sim_state sim_installer (canonical_world ''1.0.0'')"
  let ?L = "sim_state sim_installer (legacy_world ''1.0.0'')"
  let ?E = "sim_state sim_installer sim_world"
  have c: "getClient_Run sim_env defaultChartName (world ?C) = (Inr ?rel, canonical_world ''1.0.0'')"
    by (simp add: model_defs sim_defs)
  have l1: "getClient_Run sim_env defaultChartName (world ?L) =
              (Inl ErrReleaseNotFound, legacy_world ''1.0.0'')"
    by (simp add: model_defs sim_defs)
  have l2: "getClient_Run sim_env crossplaneChartName (legacy_world ''1.0.0'') =
              (Inr ?rel, legacy_world ''1.0.0'')"
    by (simp add: model_defs sim_defs)
  have f: "getClient_Run failing_get_env defaultChartName (world ?E) =
             (Inl (ErrorString ''connection refused''), sim_world)"
    by (simp add: model_defs sim_defs)
  have g1: "getClient_Run failing_legacy_get_env defaultChartName (world ?E) =
              (Inl ErrReleaseNotFound, sim_world)"
    by (simp add: model_defs sim_defs)
  have g2: "getClient_Run failing_legacy_get_env crossplaneChartName sim_world =
              (Inl (ErrorString ''connection refused''), sim_world)"
    by (simp add: model_defs sim_defs)
  have st: "?C = \<lparr>inst = sim_installer, world = canonical_world ''1.0.0'', calls = []\<rparr>"
    "?L = \<lparr>inst = sim_installer, world = legacy_world ''1.0.0'', calls = []\<rparr>"
    "?E = \<lparr>inst = sim_installer, world = sim_world, calls = []\<rparr>"
    "namespace sim_installer = ''upbound-system''"
    by (simp_all add: sim_state_def sim_installer_def initial_installer_def defaultNamespace_def)
  have fmt: "errChartAlreadyInstalledFmt ''1.0.0'' = ''chart already installed with version 1.0.0''"
    by (simp add: errChartAlreadyInstalledFmt_def)
  have a: "Install sim_env ''2.0.0'' () ?C =
     (Some (ErrorString ''chart already installed with version 1.0.0''),
      \<lparr>inst = sim_installer, world = canonical_world ''1.0.0'',
       calls = [GetRun defaultChartName]\<rparr>)"
    using Install_already_installed [where env = sim_env and s = ?C and m = ?m
        and version = "''2.0.0''" and parameters = "()"] c fmt
    by (simp add: st)
  have b: "Install sim_env ''2.0.0'' () ?L =
     (Some (ErrorString ''chart already installed with version 1.0.0''),
      \<lparr>inst = sim_installer\<lparr>releaseName := crossplaneChartName\<rparr>,
       world = legacy_world ''1.0.0'',
       calls = [GetRun defaultChartName, GetRun crossplaneChartName]\<rparr>)"
    using Install_already_installed [where env = sim_env and s = ?L and m = ?m
        and ea = ErrReleaseNotFound and version = "''2.0.0''" and parameters = "()"] l1 l2 fmt
    by (simp add: st)
  have d: "Install failing_get_env ''2.0.0'' () ?E =
     (Some (Wrap (ErrorString ''connection refused'') errVerifyChartNotInstalled),
      \<lparr>inst = sim_installer, world = sim_world, calls = [GetRun defaultChartName]\<rparr>)"
    using Install_already_installed [where env = failing_get_env and s = ?E
        and ea = "ErrorString ''connection refused''" and version = "''2.0.0''"
        and parameters = "()"] f
    by (simp add: st)
  have e: "Install failing_legacy_get_env ''2.0.0'' () ?E =
     (Some (Wrap (Wrap (ErrorString ''connection refused'')
                    (errGetInstalledReleaseFmt ''upbound-system''))
              errVerifyChartNotInstalled),
      \<lparr>inst = sim_installer, world = sim_world,
       calls = [GetRun defaultChartName, GetRun crossplaneChartName]\<rparr>)"
    using Install_already_installed [where env = failing_legacy_get_env and s = ?E
        and ea = ErrReleaseNotFound and eb = "ErrorString ''connection refused''"
        and version = "''2.0.0''" and parameters = "()"] g1 g2
    by (simp add: st)
  show ?thesis using a b d e by simp
qed

section \<open>equivalentVersions (C5)\<close>

text \<open>
  C5. For every parser \<open>newVersion\<close> and all strings \<open>a\<close> and \<open>b\<close>: if both parse and
  the versions agree on major, minor and patch (so that they differ at most in the
  prerelease tag and the build metadata), \<open>equivalentVersions\<close> is true; if both parse
  and differ in major, minor or patch, it is false; if either does not parse, it is
  false. The result is a boolean in every case.
\<close>

theorem equivalentVersions_spec:
  "(newVersion a = Inr va \<and> newVersion b = Inr vb \<and>
      Major va = Major vb \<and> Minor va = Minor vb \<and> Patch va = Patch vb
      \<longrightarrow> equivalentVersions newVersion a b)
   \<and> (newVersion a = Inr va \<and> newVersion b = Inr vb \<and>
      (Major va \<noteq> Major vb \<or> Minor va \<noteq> Minor vb \<or> Patch va \<noteq> Patch vb)
      \<longrightarrow> \<not> equivalentVersions newVersion a b)
   \<and> (newVersion a = Inl e \<or> newVersion b = Inl e \<longrightarrow> \<not> equivalentVersions newVersion a b)"
  by (auto simp add: equivalentVersions_def split: sum.splits)

text \<open>
  The theorem of C5 with the parser of the simulation: versions that differ in the
  prerelease tag, versions that differ in the minor number, and an unparsable operand on
  either side.
\<close>

theorem equivalentVersions_spec_witness:
  "equivalentVersions sim_NewVersion ''1.2.3-rc.1'' ''v1.2.3''
   \<and> \<not> equivalentVersions sim_NewVersion ''1.2.3'' ''1.3.3''
   \<and> \<not> equivalentVersions sim_NewVersion ''not-a-version'' ''1.2.3''
   \<and> \<not> equivalentVersions sim_NewVersion ''1.2.3'' ''1.2.3.4''"
proof -
  let ?bad = "ErrorString ''Invalid Semantic Version''"
  have a: "sim_NewVersion ''1.2.3-rc.1'' =
             Inr \<lparr>Major = 1, Minor = 2, Patch = 3, Prerelease = ''rc.1'', BuildMetadata = []\<rparr>"
    by (simp add: model_defs sim_defs)
  have b: "sim_NewVersion ''v1.2.3'' =
             Inr \<lparr>Major = 1, Minor = 2, Patch = 3, Prerelease = [], BuildMetadata = []\<rparr>"
    by (simp add: model_defs sim_defs)
  have c: "sim_NewVersion ''1.2.3'' =
             Inr \<lparr>Major = 1, Minor = 2, Patch = 3, Prerelease = [], BuildMetadata = []\<rparr>"
    by (simp add: model_defs sim_defs)
  have d: "sim_NewVersion ''1.3.3'' =
             Inr \<lparr>Major = 1, Minor = 3, Patch = 3, Prerelease = [], BuildMetadata = []\<rparr>"
    by (simp add: model_defs sim_defs)
  have e: "sim_NewVersion ''not-a-version'' = Inl ?bad"
    by (simp add: model_defs sim_defs)
  have f: "sim_NewVersion ''1.2.3.4'' = Inl ?bad"
    by (simp add: model_defs sim_defs)
  show ?thesis
    using equivalentVersions_spec [where newVersion = sim_NewVersion and a = "''1.2.3-rc.1''"
        and b = "''v1.2.3''"
        and va = "\<lparr>Major = 1, Minor = 2, Patch = 3, Prerelease = ''rc.1'', BuildMetadata = []\<rparr>"
        and vb = "\<lparr>Major = 1, Minor = 2, Patch = 3, Prerelease = [], BuildMetadata = []\<rparr>"]
      equivalentVersions_spec [where newVersion = sim_NewVersion and a = "''1.2.3''"
        and b = "''1.3.3''"
        and va = "\<lparr>Major = 1, Minor = 2, Patch = 3, Prerelease = [], BuildMetadata = []\<rparr>"
        and vb = "\<lparr>Major = 1, Minor = 3, Patch = 3, Prerelease = [], BuildMetadata = []\<rparr>"]
      equivalentVersions_spec [where newVersion = sim_NewVersion and a = "''not-a-version''"
        and b = "''1.2.3''" and e = ?bad]
      equivalentVersions_spec [where newVersion = sim_NewVersion and a = "''1.2.3''"
        and b = "''1.2.3.4''" and e = ?bad]
      a b c d e f
    by simp
qed

section \<open>pullAndLoad: the temporary directory of an empty version (C6, C7)\<close>

text \<open>
  C6. Let the version be empty (after the leading \<open>v\<close> is trimmed), let the temporary
  directory be created as \<open>tmp\<close>, let the pull succeed, and let \<open>ReadDir\<close> of \<open>tmp\<close>
  return a list of files whose length is not one. Then \<open>pullAndLoad\<close> fails with
  "corrupt chart tmp directory, consider removing cache (cacheDir)"; the calls it makes
  are exactly \<open>TempDir\<close>, \<open>SetDestDir\<close>, \<open>SetVersion\<close>, \<open>Run\<close>, \<open>ReadDir\<close> and the
  deferred \<open>RemoveAll\<close>, and none of them is a rename.
\<close>

theorem pullAndLoad_corrupt_tmp:
  fixes env :: "('w, 'p) env" and s :: "'w state" and version tmp
  defines "dir \<equiv> cacheDir (inst s)"
  defines "c \<equiv> chartName (inst s)"
  defines "t \<equiv> tempDir env dir [] (world s)"
  defines "p \<equiv> pullClient_Run env c
                 (pullClient_SetVersion env allVersions (pullClient_SetDestDir env tmp (snd t)))"
  defines "rd \<equiv> fs_ReadDir env tmp (snd p)"
  defines "rm \<equiv> fs_RemoveAll env tmp (snd rd)"
  defines "res \<equiv> pullAndLoad env version s"
  assumes "strings_TrimPrefix version ''v'' = []"
    and "fst t = Inr tmp"
    and "fst p = None"
    and "fst rd = Inr files"
    and "length files \<noteq> 1"
  shows "res =
           (Inl (ErrorString (errCorruptTempDirFmt dir)),
            s\<lparr>world := snd rm,
              calls := calls s @ [TempDir dir [], PullSetDestDir tmp, PullSetVersion allVersions,
                                  PullRun c, FsReadDir tmp, FsRemoveAll tmp]\<rparr>)
       \<and> (\<forall>a b. FsRename a b \<notin> set (drop (length (calls s)) (calls (snd res))))"
proof -
  have "res =
           (Inl (ErrorString (errCorruptTempDirFmt dir)),
            s\<lparr>world := snd rm,
              calls := calls s @ [TempDir dir [], PullSetDestDir tmp, PullSetVersion allVersions,
                                  PullRun c, FsReadDir tmp, FsRemoveAll tmp]\<rparr>)"
    using assms(9-12)
    by (simp add: res_def pullAndLoad_empty_version [OF assms(8)] pullAndLoad_latest_eq Let_def
        dir_def c_def t_def p_def rd_def rm_def)
  then show ?thesis by simp
qed

text \<open>
  The theorem of C6 with a puller that writes no file and with one that writes two.
\<close>

theorem pullAndLoad_corrupt_tmp_witness:
  "fst (pullAndLoad sim_env [] (latest_pull_state [])) =
     Inl (ErrorString (errCorruptTempDirFmt ''/cache''))
   \<and> calls (snd (pullAndLoad sim_env [] (latest_pull_state []))) =
       [TempDir ''/cache'' [], PullSetDestDir ''/cache/tmp0'', PullSetVersion allVersions,
        PullRun ''universal-crossplane'', FsReadDir ''/cache/tmp0'', FsRemoveAll ''/cache/tmp0'']
   \<and> fst (pullAndLoad sim_env [] (latest_pull_state [''1.2.3'', ''1.2.4''])) =
     Inl (ErrorString (errCorruptTempDirFmt ''/cache''))
   \<and> calls (snd (pullAndLoad sim_env [] (latest_pull_state [''1.2.3'', ''1.2.4'']))) =
       [TempDir ''/cache'' [], PullSetDestDir ''/cache/tmp0'', PullSetVersion allVersions,
        PullRun ''universal-crossplane'', FsReadDir ''/cache/tmp0'', FsRemoveAll ''/cache/tmp0'']"
proof -
  have v: "strings_TrimPrefix [] ''v'' = []"
    by (simp add: strings_TrimPrefix_def)
  have zero: "fst (pullAndLoad sim_env [] (latest_pull_state [])) =
     Inl (ErrorString (errCorruptTempDirFmt ''/cache''))
   \<and> calls (snd (pullAndLoad sim_env [] (latest_pull_state []))) =
       [TempDir ''/cache'' [], PullSetDestDir ''/cache/tmp0'', PullSetVersion allVersions,
        PullRun ''universal-crossplane'', FsReadDir ''/cache/tmp0'', FsRemoveAll ''/cache/tmp0'']"
  proof -
    let ?S = "latest_pull_state []"
    let ?t = "tempDir sim_env (cacheDir (inst ?S)) [] (world ?S)"
    let ?p = "pullClient_Run sim_env (chartName (inst ?S))
                (pullClient_SetVersion sim_env allVersions
                  (pullClient_SetDestDir sim_env ''/cache/tmp0'' (snd ?t)))"
    let ?rd = "fs_ReadDir sim_env ''/cache/tmp0'' (snd ?p)"
    have h2: "fst ?t = Inr ''/cache/tmp0''"
      by (simp add: latest_pull_state_def model_defs sim_defs)
    have h3: "fst ?p = None"
      by (simp add: latest_pull_state_def model_defs sim_defs)
    have h4: "fst ?rd = Inr []"
      by (simp add: latest_pull_state_def model_defs sim_defs)
    have h5: "length ([] :: string list) \<noteq> 1"
      by simp
    have i: "cacheDir (inst ?S) = ''/cache''" "chartName (inst ?S) = ''universal-crossplane''"
      "calls ?S = []"
      by (simp_all add: latest_pull_state_def model_defs sim_defs)
    show ?thesis
      using pullAndLoad_corrupt_tmp [OF v h2 h3 h4 h5] i by simp
  qed
  have two: "fst (pullAndLoad sim_env [] (latest_pull_state [''1.2.3'', ''1.2.4''])) =
     Inl (ErrorString (errCorruptTempDirFmt ''/cache''))
   \<and> calls (snd (pullAndLoad sim_env [] (latest_pull_state [''1.2.3'', ''1.2.4'']))) =
       [TempDir ''/cache'' [], PullSetDestDir ''/cache/tmp0'', PullSetVersion allVersions,
        PullRun ''universal-crossplane'', FsReadDir ''/cache/tmp0'', FsRemoveAll ''/cache/tmp0'']"
  proof -
    let ?S = "latest_pull_state [''1.2.3'', ''1.2.4'']"
    let ?t = "tempDir sim_env (cacheDir (inst ?S)) [] (world ?S)"
    let ?p = "pullClient_Run sim_env (chartName (inst ?S))
                (pullClient_SetVersion sim_env allVersions
                  (pullClient_SetDestDir sim_env ''/cache/tmp0'' (snd ?t)))"
    let ?rd = "fs_ReadDir sim_env ''/cache/tmp0'' (snd ?p)"
    let ?fs = "[''universal-crossplane-1.2.3.tgz'', ''universal-crossplane-1.2.4.tgz'']"
    have h2: "fst ?t = Inr ''/cache/tmp0''"
      by (simp add: latest_pull_state_def model_defs sim_defs)
    have h3: "fst ?p = None"
      by (simp add: latest_pull_state_def model_defs sim_defs)
    have h4: "fst ?rd = Inr ?fs"
      by (simp add: latest_pull_state_def model_defs sim_defs)
    have h5: "length ?fs \<noteq> 1"
      by simp
    have i: "cacheDir (inst ?S) = ''/cache''" "chartName (inst ?S) = ''universal-crossplane''"
      "calls ?S = []"
      by (simp_all add: latest_pull_state_def model_defs sim_defs)
    show ?thesis
      using pullAndLoad_corrupt_tmp [OF v h2 h3 h4 h5] i by simp
  qed
  show ?thesis using zero two by simp
qed

text \<open>
  C7. For an empty version the pulled file is moved into the cache ("could not move
  latest pulled chart to cache" is the error of that step), but the target of the rename
  is \<open>fileName\<close>, which was formatted from the empty version: \<open>Join(cacheDir,
  chartName-.tgz)\<close>. With the cache directory \<open>/cache\<close> and a puller that writes
  \<open>universal-crossplane-1.2.3.tgz\<close> into the temporary directory, the file is renamed to
  \<open>/cache/universal-crossplane-.tgz\<close> and that is the only file the cache holds
  afterwards; the name the puller gave it, under which a pull of the concrete version
  1.2.3 stores the archive, is \<open>/cache/universal-crossplane-1.2.3.tgz\<close>.
\<close>

theorem pullAndLoad_latest_cached_name:
  "calls (snd (pullAndLoad sim_env [] (sim_state sim_installer sim_world))) =
     [TempDir ''/cache'' [], PullSetDestDir ''/cache/tmp0'', PullSetVersion ''>0.0.0-0'',
      PullRun ''universal-crossplane'', FsReadDir ''/cache/tmp0'',
      FsRename ''/cache/tmp0/universal-crossplane-1.2.3.tgz'' ''/cache/universal-crossplane-.tgz'',
      Load ''/cache/universal-crossplane-.tgz'', FsRemoveAll ''/cache/tmp0'']
   \<and> paths (world (snd (pullAndLoad sim_env [] (sim_state sim_installer sim_world)))) =
       [''/cache/universal-crossplane-.tgz'']
   \<and> filepath_Join ''/cache'' ''universal-crossplane-1.2.3.tgz'' \<noteq>
       ''/cache/universal-crossplane-.tgz''"
  by (simp add: model_defs sim_defs)

text \<open>
  The steps of that branch for any collaborators: with a single file \<open>f\<close> in the
  temporary directory \<open>tmp\<close>, the call after \<open>ReadDir\<close> is the rename of \<open>tmp/f\<close>; an
  error \<open>e\<close> of the rename is returned wrapped with "could not move latest pulled chart
  to cache", and otherwise the result is what the loader returns. The temporary
  directory is removed in both cases.
\<close>

theorem pullAndLoad_latest_rename:
  fixes env :: "('w, 'p) env" and s :: "'w state" and version tmp f
  defines "dir \<equiv> cacheDir (inst s)"
  defines "c \<equiv> chartName (inst s)"
  defines "t \<equiv> tempDir env dir [] (world s)"
  defines "p \<equiv> pullClient_Run env c
                 (pullClient_SetVersion env allVersions (pullClient_SetDestDir env tmp (snd t)))"
  defines "rd \<equiv> fs_ReadDir env tmp (snd p)"
  defines "src \<equiv> filepath_Join tmp f"
  defines "dst \<equiv> filepath_Join dir (c @ ''-.tgz'')"
  defines "mv \<equiv> fs_Rename env src dst (snd rd)"
  defines "ld \<equiv> load env dst (snd mv)"
  defines "k \<equiv> calls s @ [TempDir dir [], PullSetDestDir tmp, PullSetVersion allVersions,
                            PullRun c, FsReadDir tmp, FsRename src dst]"
  assumes "strings_TrimPrefix version ''v'' = []"
    and "fst t = Inr tmp"
    and "fst p = None"
    and "fst rd = Inr [f]"
  shows "(fst mv = Some e \<longrightarrow>
            pullAndLoad env version s =
              (Inl (Wrap e errMoveLatest),
               s\<lparr>world := snd (fs_RemoveAll env tmp (snd mv)), calls := k @ [FsRemoveAll tmp]\<rparr>))
       \<and> (fst mv = None \<longrightarrow>
            pullAndLoad env version s =
              (fst ld,
               s\<lparr>world := snd (fs_RemoveAll env tmp (snd ld)),
                 calls := k @ [Load dst, FsRemoveAll tmp]\<rparr>))"
  using assms(12-14)
  by (simp add: pullAndLoad_empty_version [OF assms(11)] pullAndLoad_latest_eq Let_def
      dir_def c_def t_def p_def rd_def src_def dst_def mv_def ld_def k_def)

text \<open>
  The steps above with a rename that succeeds and with one that fails.
\<close>

theorem pullAndLoad_latest_rename_witness:
  "pullAndLoad sim_env [] (latest_rename_state None) =
     (Inr (Some \<lparr>Metadata = Some \<lparr>Name = ''/cache/universal-crossplane-.tgz'', Version = []\<rparr>\<rparr>),
      \<lparr>inst = sim_installer,
       world = sim_world\<lparr>paths := [''/cache/universal-crossplane-.tgz''],
                         destDir := ''/cache/tmp0'', pullVersion := ''>0.0.0-0''\<rparr>,
       calls =
         [TempDir ''/cache'' [], PullSetDestDir ''/cache/tmp0'', PullSetVersion ''>0.0.0-0'',
          PullRun ''universal-crossplane'', FsReadDir ''/cache/tmp0'',
          FsRename ''/cache/tmp0/universal-crossplane-1.2.3.tgz''
            ''/cache/universal-crossplane-.tgz'',
          Load ''/cache/universal-crossplane-.tgz'', FsRemoveAll ''/cache/tmp0'']\<rparr>)
   \<and> fst (pullAndLoad sim_env [] (latest_rename_state (Some (ErrorString ''permission denied'')))) =
       Inl (Wrap (ErrorString ''permission denied'') errMoveLatest)"
proof -
  have v: "strings_TrimPrefix [] ''v'' = []"
    by (simp add: strings_TrimPrefix_def)
  have ok: "pullAndLoad sim_env [] (latest_rename_state None) =
     (Inr (Some \<lparr>Metadata = Some \<lparr>Name = ''/cache/universal-crossplane-.tgz'', Version = []\<rparr>\<rparr>),
      \<lparr>inst = sim_installer,
       world = sim_world\<lparr>paths := [''/cache/universal-crossplane-.tgz''],
                         destDir := ''/cache/tmp0'', pullVersion := ''>0.0.0-0''\<rparr>,
       calls =
         [TempDir ''/cache'' [], PullSetDestDir ''/cache/tmp0'', PullSetVersion ''>0.0.0-0'',
          PullRun ''universal-crossplane'', FsReadDir ''/cache/tmp0'',
          FsRename ''/cache/tmp0/universal-crossplane-1.2.3.tgz''
            ''/cache/universal-crossplane-.tgz'',
          Load ''/cache/universal-crossplane-.tgz'', FsRemoveAll ''/cache/tmp0'']\<rparr>)"
  proof -
    let ?S = "latest_rename_state None"
    let ?t = "tempDir sim_env (cacheDir (inst ?S)) [] (world ?S)"
    let ?p = "pullClient_Run sim_env (chartName (inst ?S))
                (pullClient_SetVersion sim_env allVersions
                  (pullClient_SetDestDir sim_env ''/cache/tmp0'' (snd ?t)))"
    let ?rd = "fs_ReadDir sim_env ''/cache/tmp0'' (snd ?p)"
    let ?src = "filepath_Join ''/cache/tmp0'' ''universal-crossplane-1.2.3.tgz''"
    let ?dst = "filepath_Join (cacheDir (inst ?S)) (chartName (inst ?S) @ ''-.tgz'')"
    let ?mv = "fs_Rename sim_env ?src ?dst (snd ?rd)"
    let ?ld = "load sim_env ?dst (snd ?mv)"
    have h2: "fst ?t = Inr ''/cache/tmp0''"
      by (simp add: latest_rename_state_def model_defs sim_defs)
    have h3: "fst ?p = None"
      by (simp add: latest_rename_state_def model_defs sim_defs)
    have h4: "fst ?rd = Inr [''universal-crossplane-1.2.3.tgz'']"
      by (simp add: latest_rename_state_def model_defs sim_defs)
    have m: "fst ?mv = None"
      by (simp add: latest_rename_state_def model_defs sim_defs)
    have l: "fst ?ld =
      Inr (Some \<lparr>Metadata = Some \<lparr>Name = ''/cache/universal-crossplane-.tgz'', Version = []\<rparr>\<rparr>)"
      by (simp add: latest_rename_state_def model_defs sim_defs)
    have w: "snd (fs_RemoveAll sim_env ''/cache/tmp0'' (snd ?ld)) =
      sim_world\<lparr>paths := [''/cache/universal-crossplane-.tgz''],
                destDir := ''/cache/tmp0'', pullVersion := ''>0.0.0-0''\<rparr>"
      by (simp add: latest_rename_state_def model_defs sim_defs)
    have i: "?S = \<lparr>inst = sim_installer, world = sim_world\<lparr>renameErr := None\<rparr>, calls = []\<rparr>"
      "cacheDir sim_installer = ''/cache''" "chartName sim_installer = ''universal-crossplane''"
      "?src = ''/cache/tmp0/universal-crossplane-1.2.3.tgz''"
      "filepath_Join ''/cache'' ''universal-crossplane-.tgz'' = ''/cache/universal-crossplane-.tgz''"
      "allVersions = ''>0.0.0-0''"
      by (simp_all add: latest_rename_state_def model_defs sim_defs)
    show ?thesis
      using pullAndLoad_latest_rename [OF v h2 h3 h4] m l w
      by (simp add: i)
  qed
  have failed: "fst (pullAndLoad sim_env [] (latest_rename_state (Some (ErrorString ''permission denied'')))) =
       Inl (Wrap (ErrorString ''permission denied'') errMoveLatest)"
  proof -
    let ?S = "latest_rename_state (Some (ErrorString ''permission denied''))"
    let ?t = "tempDir sim_env (cacheDir (inst ?S)) [] (world ?S)"
    let ?p = "pullClient_Run sim_env (chartName (inst ?S))
                (pullClient_SetVersion sim_env allVersions
                  (pullClient_SetDestDir sim_env ''/cache/tmp0'' (snd ?t)))"
    let ?rd = "fs_ReadDir sim_env ''/cache/tmp0'' (snd ?p)"
    let ?src = "filepath_Join ''/cache/tmp0'' ''universal-crossplane-1.2.3.tgz''"
    let ?dst = "filepath_Join (cacheDir (inst ?S)) (chartName (inst ?S) @ ''-.tgz'')"
    let ?mv = "fs_Rename sim_env ?src ?dst (snd ?rd)"
    have h2: "fst ?t = Inr ''/cache/tmp0''"
      by (simp add: latest_rename_state_def model_defs sim_defs)
    have h3: "fst ?p = None"
      by (simp add: latest_rename_state_def model_defs sim_defs)
    have h4: "fst ?rd = Inr [''universal-crossplane-1.2.3.tgz'']"
      by (simp add: latest_rename_state_def model_defs sim_defs)
    have m: "fst ?mv = Some (ErrorString ''permission denied'')"
      by (simp add: latest_rename_state_def model_defs sim_defs)
    show ?thesis
      using pullAndLoad_latest_rename [OF v h2 h3 h4] m by simp
  qed
  show ?thesis using ok failed by simp
qed

section \<open>GetCurrentVersion (C8)\<close>

text \<open>
  C8, as the code has it. \<open>GetCurrentVersion\<close> first queries the release store for
  \<open>universal-crossplane\<close>. If that returns a release, or an error that is not "release
  not found", there is no second query: the error is returned as it is and the release
  name is unchanged. Only on "release not found" it queries \<open>crossplane\<close>; an error of
  that query is returned wrapped with the namespace message, and a result sets the
  release name to \<open>crossplane\<close>. A result that is nil, or has no chart, or whose chart
  has no metadata, gives "could not identify current version"; a result with metadata
  gives the version string of the metadata, whatever it is.
\<close>

theorem GetCurrentVersion_lookup:
  fixes env :: "('w, 'p) env" and s :: "'w state"
  defines "r1 \<equiv> getClient_Run env defaultChartName (world s)"
  defines "r2 \<equiv> getClient_Run env crossplaneChartName (snd r1)"
  defines "k1 \<equiv> calls s @ [GetRun defaultChartName]"
  defines "k2 \<equiv> calls s @ [GetRun defaultChartName, GetRun crossplaneChartName]"
  defines "res \<equiv> GetCurrentVersion env s"
  shows "(fst r1 = Inr rel \<longrightarrow>
            res = (release_version rel, s\<lparr>world := snd r1, calls := k1\<rparr>))
       \<and> (fst r1 = Inl ea \<and> \<not> errors_Is ea ErrReleaseNotFound \<longrightarrow>
            res = (Inl ea, s\<lparr>world := snd r1, calls := k1\<rparr>))
       \<and> (fst r1 = Inl ea \<and> errors_Is ea ErrReleaseNotFound \<and> fst r2 = Inr rel \<longrightarrow>
            res = (release_version rel,
                   s\<lparr>inst := (inst s)\<lparr>releaseName := crossplaneChartName\<rparr>,
                     world := snd r2, calls := k2\<rparr>))
       \<and> (fst r1 = Inl ea \<and> errors_Is ea ErrReleaseNotFound \<and> fst r2 = Inl eb \<longrightarrow>
            res = (Inl (Wrap eb (errGetInstalledReleaseFmt (namespace (inst s)))),
                   s\<lparr>world := snd r2, calls := k2\<rparr>))
       \<and> release_version None = Inl (ErrorString errVerifyInstalledVersion)
       \<and> release_version (Some \<lparr>Chart = None\<rparr>) = Inl (ErrorString errVerifyInstalledVersion)
       \<and> release_version (Some \<lparr>Chart = Some \<lparr>Metadata = None\<rparr>\<rparr>) =
           Inl (ErrorString errVerifyInstalledVersion)
       \<and> release_version (Some \<lparr>Chart = Some \<lparr>Metadata = Some m\<rparr>\<rparr>) = Inr (Version m)"
  by (simp add: res_def GetCurrentVersion_cases Let_def r1_def r2_def k1_def k2_def
      release_version_def)

text \<open>
  The theorem of C8 at a release under the canonical name, a release under the legacy
  name, a store whose lookup fails, and an empty store.
\<close>

theorem GetCurrentVersion_lookup_witness:
  "GetCurrentVersion sim_env (sim_state sim_installer (canonical_world ''1.0.0'')) =
     (Inr ''1.0.0'',
      \<lparr>inst = sim_installer, world = canonical_world ''1.0.0'',
       calls = [GetRun defaultChartName]\<rparr>)
   \<and> GetCurrentVersion sim_env (sim_state sim_installer (legacy_world ''1.0.0'')) =
     (Inr ''1.0.0'',
      \<lparr>inst = sim_installer\<lparr>releaseName := crossplaneChartName\<rparr>,
       world = legacy_world ''1.0.0'',
       calls = [GetRun defaultChartName, GetRun crossplaneChartName]\<rparr>)
   \<and> GetCurrentVersion failing_get_env (sim_state sim_installer sim_world) =
     (Inl (ErrorString ''connection refused''),
      \<lparr>inst = sim_installer, world = sim_world, calls = [GetRun defaultChartName]\<rparr>)
   \<and> GetCurrentVersion sim_env (sim_state sim_installer sim_world) =
     (Inl (Wrap ErrReleaseNotFound (errGetInstalledReleaseFmt ''upbound-system'')),
      \<lparr>inst = sim_installer, world = sim_world,
       calls = [GetRun defaultChartName, GetRun crossplaneChartName]\<rparr>)"
proof -
  let ?m = "\<lparr>Name = ''chart'', Version = ''1.0.0''\<rparr>"
  let ?rel = "Some \<lparr>Chart = Some \<lparr>Metadata = Some ?m\<rparr>\<rparr>"
  let ?C = "sim_state sim_installer (canonical_world ''1.0.0'')"
  let ?L = "sim_state sim_installer (legacy_world ''1.0.0'')"
  let ?E = "sim_state sim_installer sim_world"
  have c: "getClient_Run sim_env defaultChartName (world ?C) = (Inr ?rel, canonical_world ''1.0.0'')"
    by (simp add: model_defs sim_defs)
  have l1: "getClient_Run sim_env defaultChartName (world ?L) =
              (Inl ErrReleaseNotFound, legacy_world ''1.0.0'')"
    by (simp add: model_defs sim_defs)
  have l2: "getClient_Run sim_env crossplaneChartName (legacy_world ''1.0.0'') =
              (Inr ?rel, legacy_world ''1.0.0'')"
    by (simp add: model_defs sim_defs)
  have f: "getClient_Run failing_get_env defaultChartName (world ?E) =
             (Inl (ErrorString ''connection refused''), sim_world)"
    by (simp add: model_defs sim_defs)
  have n1: "getClient_Run sim_env defaultChartName (world ?E) = (Inl ErrReleaseNotFound, sim_world)"
    by (simp add: model_defs sim_defs)
  have n2: "getClient_Run sim_env crossplaneChartName sim_world = (Inl ErrReleaseNotFound, sim_world)"
    by (simp add: model_defs sim_defs)
  have st: "?C = \<lparr>inst = sim_installer, world = canonical_world ''1.0.0'', calls = []\<rparr>"
    "?L = \<lparr>inst = sim_installer, world = legacy_world ''1.0.0'', calls = []\<rparr>"
    "?E = \<lparr>inst = sim_installer, world = sim_world, calls = []\<rparr>"
    "namespace sim_installer = ''upbound-system''"
    by (simp_all add: sim_state_def sim_installer_def initial_installer_def defaultNamespace_def)
  have a: "GetCurrentVersion sim_env ?C =
     (Inr ''1.0.0'',
      \<lparr>inst = sim_installer, world = canonical_world ''1.0.0'',
       calls = [GetRun defaultChartName]\<rparr>)"
    using GetCurrentVersion_lookup [where env = sim_env and s = ?C and rel = ?rel and m = ?m] c
    by (simp add: st)
  have b: "GetCurrentVersion sim_env ?L =
     (Inr ''1.0.0'',
      \<lparr>inst = sim_installer\<lparr>releaseName := crossplaneChartName\<rparr>,
       world = legacy_world ''1.0.0'',
       calls = [GetRun defaultChartName, GetRun crossplaneChartName]\<rparr>)"
    using GetCurrentVersion_lookup [where env = sim_env and s = ?L and rel = ?rel and m = ?m
        and ea = ErrReleaseNotFound] l1 l2
    by (simp add: st)
  have d: "GetCurrentVersion failing_get_env ?E =
     (Inl (ErrorString ''connection refused''),
      \<lparr>inst = sim_installer, world = sim_world, calls = [GetRun defaultChartName]\<rparr>)"
    using GetCurrentVersion_lookup [where env = failing_get_env and s = ?E
        and ea = "ErrorString ''connection refused''"] f
    by (simp add: st)
  have e: "GetCurrentVersion sim_env ?E =
     (Inl (Wrap ErrReleaseNotFound (errGetInstalledReleaseFmt ''upbound-system'')),
      \<lparr>inst = sim_installer, world = sim_world,
       calls = [GetRun defaultChartName, GetRun crossplaneChartName]\<rparr>)"
    using GetCurrentVersion_lookup [where env = sim_env and s = ?E
        and ea = ErrReleaseNotFound and eb = ErrReleaseNotFound] n1 n2
    by (simp add: st)
  show ?thesis using a b d e by simp
qed

text \<open>
  C8 as specified says that a release found without a version fails. A release whose
  chart metadata has the empty version string is returned as the empty version,
  without an error.
\<close>

theorem GetCurrentVersion_empty_version_counterexample:
  "getClient_Run sim_env defaultChartName (canonical_world []) =
     (Inr (Some \<lparr>Chart = Some \<lparr>Metadata = Some \<lparr>Name = ''chart'', Version = []\<rparr>\<rparr>\<rparr>),
      canonical_world [])
   \<and> fst (GetCurrentVersion sim_env (sim_state sim_installer (canonical_world []))) = Inr []"
  by (simp add: model_defs sim_defs)

section \<open>Uninstall (C9)\<close>




section \<open>The release name (C10)\<close>

text \<open>
  C10, as the code has it. The release name of an installer built by \<open>NewInstaller\<close> is
  \<open>universal-crossplane\<close>, which is its chart name unless a \<open>WithChartName\<close> modifier was
  given. \<open>GetCurrentVersion\<close> sets it to \<open>crossplane\<close> exactly when the canonical
  lookup reports "release not found" and the legacy lookup returns a result, and leaves
  it unchanged otherwise, so a release name \<open>crossplane\<close> stays. After \<open>Install\<close> and
  \<open>Upgrade\<close> the release name is the one their lookup left, whether they fail or not;
  \<open>Uninstall\<close>, \<open>pullAndLoad\<close> and \<open>pullChart\<close> do not change it.
\<close>

theorem releaseName_lifecycle:
  fixes env :: "('w, 'p) env" and s :: "'w state"
  defines "r1 \<equiv> getClient_Run env defaultChartName (world s)"
  defines "r2 \<equiv> getClient_Run env crossplaneChartName (snd r1)"
  defines "s1 \<equiv> snd (GetCurrentVersion env s)"
  shows "(fst (NewInstaller env modifiers w) = Inr h \<longrightarrow>
            releaseName h = defaultChartName
            \<and> ((\<forall>n. WithChartName n \<notin> set modifiers) \<longrightarrow> chartName h = releaseName h))
       \<and> releaseName (inst s1) =
           (if (\<exists>e. fst r1 = Inl e \<and> errors_Is e ErrReleaseNotFound) \<and> (\<exists>rel. fst r2 = Inr rel)
            then crossplaneChartName else releaseName (inst s))
       \<and> (releaseName (inst s) = crossplaneChartName \<longrightarrow>
            releaseName (inst s1) = crossplaneChartName)
       \<and> releaseName (inst (snd (Install env version parameters s))) = releaseName (inst s1)
       \<and> releaseName (inst (snd (Upgrade env version parameters s))) = releaseName (inst s1)
       \<and> releaseName (inst (snd (Uninstall env s))) = releaseName (inst s)
       \<and> releaseName (inst (snd (pullAndLoad env version s))) = releaseName (inst s)
       \<and> releaseName (inst (snd (pullChart env version s))) = releaseName (inst s)"
proof -
  have a: "fst (NewInstaller env modifiers w) = Inr h \<longrightarrow>
            releaseName h = defaultChartName
            \<and> ((\<forall>n. WithChartName n \<notin> set modifiers) \<longrightarrow> chartName h = releaseName h)"
    using NewInstaller_names [of env modifiers w h] by simp
  have b: "releaseName (inst s1) =
           (if (\<exists>e. fst r1 = Inl e \<and> errors_Is e ErrReleaseNotFound) \<and> (\<exists>rel. fst r2 = Inr rel)
            then crossplaneChartName else releaseName (inst s))"
    by (auto simp add: s1_def r1_def r2_def GetCurrentVersion_cases Let_def split: sum.splits)
  have c: "releaseName (inst (snd (Uninstall env s))) = releaseName (inst s)"
    by (simp add: Uninstall_def call_eq)
  show ?thesis
    using a b c by (simp add: s1_def Install_inst Upgrade_inst pullAndLoad_inst pullChart_inst)
qed

text \<open>
  The theorem of C10 at an installer built without a chart name modifier, and at an
  upgrade of a legacy release that fails at the version gate: the release name is
  \<open>crossplane\<close> afterwards.
\<close>

theorem releaseName_lifecycle_witness:
  "fst (NewInstaller sim_env [WithNamespace ''uxp'', Force True] sim_world) =
     Inr \<lparr>repoURL = DefaultRepo, chartName = ''universal-crossplane'',
          releaseName = ''universal-crossplane'', namespace = ''uxp'',
          cacheDir = ''/home/u/.cache/up/charts'', unstable = False,
          rollbackOnError = False, force = True\<rparr>
   \<and> fst (Upgrade sim_env ''2.0.0'' () (legacy_upgrade_state False)) =
       Some (ErrorString errUpgradeCrossplaneVersion)
   \<and> releaseName (inst (legacy_upgrade_state False)) = defaultChartName
   \<and> releaseName (inst (snd (Upgrade sim_env ''2.0.0'' () (legacy_upgrade_state False)))) =
       crossplaneChartName"
proof -
  let ?h = "\<lparr>repoURL = DefaultRepo, chartName = ''universal-crossplane'',
          releaseName = ''universal-crossplane'', namespace = ''uxp'',
          cacheDir = ''/home/u/.cache/up/charts'', unstable = False,
          rollbackOnError = False, force = True\<rparr>"
  let ?S = "legacy_upgrade_state False"
  have n: "fst (NewInstaller sim_env [WithNamespace ''uxp'', Force True] sim_world) = Inr ?h"
    by (simp add: NewInstaller_def url_String_def defaultCacheDir_def defaultNamespace_def
        defaultRepoURL_def model_defs sim_defs)
  have u: "fst (Upgrade sim_env ''2.0.0'' () ?S) = Some (ErrorString errUpgradeCrossplaneVersion)"
    by (simp add: legacy_upgrade_state_def model_defs sim_defs)
  have r0: "releaseName (inst ?S) = defaultChartName"
    by (simp add: legacy_upgrade_state_def model_defs sim_defs)
  have r1: "fst (getClient_Run sim_env defaultChartName (world ?S)) = Inl ErrReleaseNotFound"
    by (simp add: legacy_upgrade_state_def model_defs sim_defs)
  have r2: "fst (getClient_Run sim_env crossplaneChartName
                  (snd (getClient_Run sim_env defaultChartName (world ?S)))) =
              Inr (sim_release ''1.0.0'')"
    by (simp add: legacy_upgrade_state_def model_defs sim_defs)
  show ?thesis
    using releaseName_lifecycle [where env = sim_env and s = ?S and h = ?h
        and modifiers = "[WithNamespace ''uxp'', Force True]" and w = sim_world
        and version = "''2.0.0''" and parameters = "()"] n u r0 r1 r2
    by simp
qed

text \<open>
  C10 as specified says that the release name starts equal to the configured chart
  name. With the modifier \<open>WithChartName my-chart\<close> the chart name is \<open>my-chart\<close> and
  the release name is \<open>universal-crossplane\<close>.
\<close>

theorem NewInstaller_chartName_counterexample:
  "fst (NewInstaller sim_env [WithChartName ''my-chart''] sim_world) =
     Inr \<lparr>repoURL = DefaultRepo, chartName = ''my-chart'',
          releaseName = ''universal-crossplane'', namespace = ''upbound-system'',
          cacheDir = ''/home/u/.cache/up/charts'', unstable = False,
          rollbackOnError = False, force = False\<rparr>
   \<and> ''universal-crossplane'' \<noteq> ''my-chart''"
  by (simp add: NewInstaller_def url_String_def defaultCacheDir_def defaultNamespace_def
      defaultRepoURL_def model_defs sim_defs)

end
